theory Spec2Isabelle
  imports Main "HOL-Library.Word"
begin

section \<open>Data model of the packaging client (package client)\<close>

text \<open>
  Go's \<open>int64\<close> is a 64-bit word: \<open>+\<close> wraps around and \<open>sint\<close> reads the signed
  value. Go's \<open>int\<close> is modelled by the same type (the 64-bit platforms).
\<close>

type_synonym int64 = "64 word"

text \<open>
  An \<open>error\<close> of the Go code. \<open>Errorf m\<close> is an error value built in this package
  by \<open>fmt.Errorf\<close> or \<open>errors.New\<close> with message \<open>m\<close>; \<open>External m\<close> is an error
  value handed back by a library call and propagated unchanged; \<open>Panic m\<close> is not an
  error value at all: it stands for the run-time panic that ends the call without any
  return value.
\<close>

datatype error = Errorf string | External string | Panic string

text \<open>
  Struct \<open>CmdGoCar\<close>. The struct declares \<open>InputDir\<close> as \<open>[]string\<close>, but every
  method modelled here hands it to \<open>ioutil.ReadDir\<close>, \<open>filepath.Base\<close> and
  \<open>filepath.Join\<close>, which take one path; it is one path here.
\<close>

record CmdGoCar =
  OutputDir :: string
  InputDir :: string
  GenerateMd5 :: bool
  GocarFileSizeLimit :: int64
  GocarFolderBased :: bool
  Parallel :: int

text \<open>Struct \<open>FileDesc\<close>; the two pointer fields are options (\<open>nil\<close> is \<open>None\<close>).\<close>

record FileDesc =
  Uuid :: string
  SourceFileName :: string
  SourceFilePath :: string
  SourceFileMd5 :: string
  SourceFileSize :: int64
  CarFileName :: string
  CarFilePath :: string
  CarFileMd5 :: string
  CarFileUrl :: string
  CarFileSize :: int64
  PayloadCid :: string
  PieceCid :: string
  StartEpoch :: "int64 option"
  SourceId :: "int64 option"

text \<open>The zero value \<open>FileDesc{}\<close>.\<close>

definition FileDesc_zero :: FileDesc where
  "FileDesc_zero =
     \<lparr>Uuid = [], SourceFileName = [], SourceFilePath = [], SourceFileMd5 = [],
      SourceFileSize = 0, CarFileName = [], CarFilePath = [], CarFileMd5 = [],
      CarFileUrl = [], CarFileSize = 0, PayloadCid = [], PieceCid = [],
      StartEpoch = None, SourceId = None\<rparr>"

text \<open>
  Struct \<open>ManifestDetail\<close> and the anonymous struct of its \<open>Link\<close> slice. The field
  names of the two structs coincide in Go; they carry a prefix here.
\<close>

record ManifestLink =
  link_Name :: string
  link_Hash :: string
  link_Size :: int64

record ManifestDetail =
  detail_Name :: string
  detail_Hash :: string
  detail_Size :: int64
  detail_Link :: "ManifestLink list"

section \<open>The world outside the package\<close>

text \<open>
  What a file holds: raw bytes, or the records handed to an \<open>encoding/csv\<close> writer,
  one string list per record, in the order written.
\<close>

datatype file_content = Bytes string | CsvRecords "string list list"

record world =
  files :: "string \<rightharpoonup> file_content"
  dirs :: "string set"

text \<open>
  The library calls of the package, as parameters. A call that may fail gives the
  message of its error (\<open>Inl\<close>, or \<open>Some\<close> where it returns only an error); a call
  with effects also gives the world it leaves. The context and the commitment callback
  of \<open>ChunkMulti\<close> are fixed by the other arguments and left out. For the three
  writes of the metadata writer the parameter only decides whether the call fails; what
  a successful call writes is part of the model below.
\<close>

record env =
  CreateDirIfNotExists :: "string \<Rightarrow> string \<Rightarrow> world \<Rightarrow> string option \<times> world"
  ReadDir :: "string \<Rightarrow> world \<Rightarrow> string + string list"
  ChunkMulti :: "int64 \<Rightarrow> string \<Rightarrow> string list \<Rightarrow> string \<Rightarrow> string \<Rightarrow> int
                  \<Rightarrow> world \<Rightarrow> string option \<times> world"
  CarTo :: "string \<Rightarrow> string \<Rightarrow> int \<Rightarrow> world \<Rightarrow> string option \<times> world"
  Merge :: "string \<Rightarrow> int \<Rightarrow> world \<Rightarrow> string option \<times> world"
  ReadAllLines :: "string \<Rightarrow> string \<Rightarrow> world \<Rightarrow> string + string list"
  GetInt64FromStr :: "string \<Rightarrow> int64"
  json_Unmarshal :: "string \<Rightarrow> string + ManifestDetail"
  IsFileExistsFullPath :: "string \<Rightarrow> world \<Rightarrow> bool"
  MD5sum :: "string \<Rightarrow> world \<Rightarrow> string + string"
  filepath_Join :: "string \<Rightarrow> string \<Rightarrow> string"
  filepath_Base :: "string \<Rightarrow> string"
  os_MkdirAll :: "string \<Rightarrow> world \<Rightarrow> string option \<times> world"
  json_MarshalIndent :: "FileDesc list \<Rightarrow> string + string"
  WriteFile_error :: "string \<Rightarrow> string \<Rightarrow> world \<Rightarrow> string option"
  os_Create_error :: "string \<Rightarrow> world \<Rightarrow> string option"
  csv_Write_error :: "string \<Rightarrow> string list \<Rightarrow> world \<Rightarrow> string option"

section \<open>Strings\<close>

text \<open>
  \<open>strings.Split(s, ",")\<close> for a separator of one byte: the pieces between the
  separators, one more than there are separators, so never an empty list.
\<close>

fun strings_Split :: "string \<Rightarrow> char \<Rightarrow> string list" where
  "strings_Split [] sep = [[]]"
| "strings_Split (c # cs) sep =
     (if c = sep then [] # strings_Split cs sep
      else (case strings_Split cs sep of
              [] \<Rightarrow> [[c]]
            | f # fs \<Rightarrow> (c # f) # fs))"

text \<open>
  Joining with a separator, as the spec describes the tail of a row: "fields from index
  4 onward rejoined with the separator". This is what the loop at lines 229-232 is
  compared with.
\<close>

fun rejoined :: "string list \<Rightarrow> string \<Rightarrow> string" where
  "rejoined [] sep = []"
| "rejoined [f] sep = f"
| "rejoined (f # g # fs) sep = f @ sep @ rejoined (g # fs) sep"

text \<open>
  Lines 230-232: \<open>for i := 5; i < len(fields); i++ { carFileDetail = carFileDetail + "," + fields[i] }\<close>.
\<close>

function carFileDetail_loop :: "string list \<Rightarrow> nat \<Rightarrow> string \<Rightarrow> string" where
  "carFileDetail_loop flds i carFileDetail =
     (if i < length flds
      then carFileDetail_loop flds (Suc i) (carFileDetail @ '','' @ flds ! i)
      else carFileDetail)"
  by pat_completeness auto
termination
  by (relation "measure (\<lambda>(flds, i, carFileDetail). length flds - i)") auto

declare carFileDetail_loop.simps [simp del]

text \<open>Lines 229-232, for a list of at least 5 fields (the guard of line 215).\<close>

definition carFileDetail_of :: "string list \<Rightarrow> string" where
  "carFileDetail_of flds = carFileDetail_loop flds 5 (flds ! 4)"

section \<open>The metadata writer\<close>

text \<open>
  \<open>strconv.FormatInt(v, 10)\<close> and \<open>strconv.Itoa\<close>: the decimal digits of the signed
  value, with a minus sign in front of a negative one.
\<close>

fun decimal_digits :: "nat \<Rightarrow> string" where
  "decimal_digits n =
     (if n < 10 then [''0123456789'' ! n]
      else decimal_digits (n div 10) @ [''0123456789'' ! (n mod 10)])"

declare decimal_digits.simps [simp del]

definition FormatInt :: "int64 \<Rightarrow> string" where
  "FormatInt v =
     (if sint v < 0 then CHR ''-'' # decimal_digits (nat (- sint v))
      else decimal_digits (nat (sint v)))"

text \<open>Lines 325-340: the header record.\<close>

definition csv_headers :: "string list" where
  "csv_headers =
     [] @ [''uuid''] @ [''source_file_name''] @ [''source_file_path'']
        @ [''source_file_md5''] @ [''source_file_size''] @ [''car_file_name'']
        @ [''car_file_path''] @ [''car_file_md5''] @ [''car_file_url'']
        @ [''car_file_size''] @ [''pay_load_cid''] @ [''piece_cid'']
        @ [''start_epoch''] @ [''source_id''] @ [''deals'']"

text \<open>Lines 359-386: the record of one descriptor.\<close>

definition csv_columns :: "FileDesc \<Rightarrow> string list" where
  "csv_columns carFile =
     [] @ [Uuid carFile] @ [SourceFileName carFile] @ [SourceFilePath carFile]
        @ [SourceFileMd5 carFile] @ [FormatInt (SourceFileSize carFile)]
        @ [CarFileName carFile] @ [CarFilePath carFile] @ [CarFileMd5 carFile]
        @ [CarFileUrl carFile] @ [FormatInt (CarFileSize carFile)]
        @ [PayloadCid carFile] @ [PieceCid carFile]
        @ [case StartEpoch carFile of Some v \<Rightarrow> FormatInt v | None \<Rightarrow> []]
        @ [case SourceId carFile of Some v \<Rightarrow> FormatInt v | None \<Rightarrow> []]
        @ [[]]"

text \<open>
  \<open>writer.Write(record)\<close> on the writer of the file at \<open>path\<close>: the record is added
  after those already written, unless the call fails. (The writer is flushed when
  \<open>WriteCarFilesToCsvFile\<close> returns; the model adds each record at once.)
\<close>

definition csv_Write :: "env \<Rightarrow> string \<Rightarrow> string list \<Rightarrow> world \<Rightarrow> error option \<times> world" where
  "csv_Write env path rec w =
     (case csv_Write_error env path rec w of
        Some e \<Rightarrow> (Some (External e), w)
      | None \<Rightarrow>
          (None, w\<lparr>files := (files w)(path \<mapsto>
             CsvRecords ((case files w path of Some (CsvRecords rs) \<Rightarrow> rs | _ \<Rightarrow> []) @ [rec]))\<rparr>))"

text \<open>Lines 358-393: the loop over the descriptors.\<close>

fun csv_rows_loop :: "env \<Rightarrow> string \<Rightarrow> FileDesc list \<Rightarrow> world \<Rightarrow> error option \<times> world" where
  "csv_rows_loop env path [] w = (None, w)"
| "csv_rows_loop env path (carFile # carFiles) w =
     (case csv_Write env path (csv_columns carFile) w of
        (Some e, w') \<Rightarrow> (Some e, w')
      | (None, w') \<Rightarrow> csv_rows_loop env path carFiles w')"

text \<open>\<open>WriteCarFilesToCsvFile\<close>, lines 323-398. \<open>os.Create\<close> leaves an empty file.\<close>

definition WriteCarFilesToCsvFile ::
  "env \<Rightarrow> FileDesc list \<Rightarrow> string \<Rightarrow> string \<Rightarrow> world \<Rightarrow> error option \<times> world" where
  "WriteCarFilesToCsvFile env carFiles outDir csvFileName w =
     (let csvFilePath = filepath_Join env outDir csvFileName;
          headers = csv_headers
      in case os_Create_error env csvFilePath w of
           Some e \<Rightarrow> (Some (External e), w)
         | None \<Rightarrow>
             (let w1 = w\<lparr>files := (files w)(csvFilePath \<mapsto> CsvRecords [])\<rparr>
              in case csv_Write env csvFilePath headers w1 of
                   (Some e, w2) \<Rightarrow> (Some e, w2)
                 | (None, w2) \<Rightarrow> csv_rows_loop env csvFilePath carFiles w2))"

text \<open>\<open>WriteFileDescsToJsonFile\<close>, lines 305-321.\<close>

definition WriteFileDescsToJsonFile ::
  "env \<Rightarrow> FileDesc list \<Rightarrow> string \<Rightarrow> string \<Rightarrow> world \<Rightarrow> (error + string) \<times> world" where
  "WriteFileDescsToJsonFile env fileDescs outputDir jsonFileName w =
     (let jsonFilePath = filepath_Join env outputDir jsonFileName
      in case json_MarshalIndent env fileDescs of
           Inl e \<Rightarrow> (Inl (External e), w)
         | Inr content \<Rightarrow>
             (case WriteFile_error env jsonFilePath content w of
                Some e \<Rightarrow> (Inl (External e), w)
              | None \<Rightarrow>
                  (Inr jsonFilePath, w\<lparr>files := (files w)(jsonFilePath \<mapsto> Bytes content)\<rparr>)))"

text \<open>\<open>WriteCarFilesToFiles\<close>, lines 283-303.\<close>

definition WriteCarFilesToFiles ::
  "env \<Rightarrow> FileDesc list \<Rightarrow> string \<Rightarrow> string \<Rightarrow> string \<Rightarrow> world \<Rightarrow> (error + string) \<times> world" where
  "WriteCarFilesToFiles env carFiles outputDir jsonFilename csvFileName w =
     (case os_MkdirAll env outputDir w of
        (Some e, w1) \<Rightarrow> (Inl (External e), w1)
      | (None, w1) \<Rightarrow>
          (case WriteFileDescsToJsonFile env carFiles outputDir jsonFilename w1 of
             (Inl e, w2) \<Rightarrow> (Inl e, w2)
           | (Inr jsonFilePath, w2) \<Rightarrow>
               (case WriteCarFilesToCsvFile env carFiles outputDir csvFileName w2 of
                  (Some e, w3) \<Rightarrow> (Inl e, w3)
                | (None, w3) \<Rightarrow> (Inr jsonFilePath, w3))))"

section \<open>The manifest reconciler\<close>

definition DIR_NAME_OUTPUT :: string where
  "DIR_NAME_OUTPUT = ''output''"

definition JSON_FILE_NAME_CAR_UPLOAD :: string where
  "JSON_FILE_NAME_CAR_UPLOAD = ''car.json''"

definition CSV_FILE_NAME_CAR_UPLOAD :: string where
  "CSV_FILE_NAME_CAR_UPLOAD = ''car.csv''"

definition manifestFilename :: string where
  "manifestFilename = ''manifest.csv''"

text \<open>
  Lines 244-246: \<open>fileDesc.SourceFileSize = fileDesc.SourceFileSize + link.Size\<close> for each
  link, in 64-bit arithmetic.
\<close>

fun add_link_sizes :: "int64 \<Rightarrow> ManifestLink list \<Rightarrow> int64" where
  "add_link_sizes acc [] = acc"
| "add_link_sizes acc (link # links) = add_link_sizes (acc + link_Size link) links"

text \<open>
  Lines 241-251: the source fields, by policy. \<open>manifestDetail.Link[0]\<close> on an empty
  slice is a run-time panic.
\<close>

definition source_fields :: "env \<Rightarrow> CmdGoCar \<Rightarrow> ManifestDetail \<Rightarrow> FileDesc \<Rightarrow> error + FileDesc" where
  "source_fields env cmdGoCar manifestDetail fileDesc =
     (if GocarFolderBased cmdGoCar
      then Inr (fileDesc
             \<lparr>SourceFileName := filepath_Base env (InputDir cmdGoCar),
              SourceFilePath := InputDir cmdGoCar,
              SourceFileSize := add_link_sizes (SourceFileSize fileDesc) (detail_Link manifestDetail)\<rparr>)
      else (case detail_Link manifestDetail of
              [] \<Rightarrow> Inl (Panic ''index out of range [0] with length 0'')
            | link0 # _ \<Rightarrow>
                Inr (fileDesc
                  \<lparr>SourceFileName := link_Name link0,
                   SourceFilePath := filepath_Join env (InputDir cmdGoCar) (link_Name link0),
                   SourceFileSize := link_Size link0\<rparr>)))"

text \<open>Lines 253-269: the checksums, when requested.\<close>

definition md5_fields :: "env \<Rightarrow> CmdGoCar \<Rightarrow> world \<Rightarrow> FileDesc \<Rightarrow> error + FileDesc" where
  "md5_fields env cmdGoCar w fileDesc =
     (if GenerateMd5 cmdGoCar
      then (case (if IsFileExistsFullPath env (SourceFilePath fileDesc) w
                  then (case MD5sum env (SourceFilePath fileDesc) w of
                          Inl e \<Rightarrow> Inl (External e)
                        | Inr srcFileMd5 \<Rightarrow> Inr (fileDesc\<lparr>SourceFileMd5 := srcFileMd5\<rparr>))
                  else Inr fileDesc) of
              Inl e \<Rightarrow> Inl e
            | Inr fileDesc1 \<Rightarrow>
                (case MD5sum env (CarFilePath fileDesc1) w of
                   Inl e \<Rightarrow> Inl (External e)
                 | Inr carFileMd5 \<Rightarrow> Inr (fileDesc1\<lparr>CarFileMd5 := carFileMd5\<rparr>)))
      else Inr fileDesc)"

text \<open>Lines 214-269: the body of the loop, for one line of the manifest.\<close>

definition manifest_row :: "env \<Rightarrow> CmdGoCar \<Rightarrow> world \<Rightarrow> string \<Rightarrow> error + FileDesc" where
  "manifest_row env cmdGoCar w line =
     (let flds = strings_Split line CHR '',''
      in if length flds < 5
         then Inl (Errorf (''not enough fields in '' @ manifestFilename))
         else
           (let fileDesc = FileDesc_zero\<lparr>PayloadCid := flds ! 0\<rparr>;
                fileDesc = fileDesc\<lparr>CarFileName := PayloadCid fileDesc @ ''.car''\<rparr>;
                fileDesc = fileDesc\<lparr>CarFileUrl := CarFileName fileDesc\<rparr>;
                fileDesc = fileDesc\<lparr>CarFilePath :=
                             filepath_Join env (OutputDir cmdGoCar) (CarFileName fileDesc)\<rparr>;
                fileDesc = fileDesc\<lparr>PieceCid := flds ! 2\<rparr>;
                fileDesc = fileDesc\<lparr>CarFileSize := GetInt64FromStr env (flds ! 3)\<rparr>;
                carFileDetail = carFileDetail_of flds
            in case json_Unmarshal env carFileDetail of
                 Inl e \<Rightarrow> Inl (External e)
               | Inr manifestDetail \<Rightarrow>
                   (case source_fields env cmdGoCar manifestDetail fileDesc of
                      Inl e \<Rightarrow> Inl e
                    | Inr fileDesc \<Rightarrow> md5_fields env cmdGoCar w fileDesc)))"

text \<open>
  Lines 208-272: \<open>for i, line := range lines\<close>, skipping the line of index 0 and
  returning at the first line that fails.
\<close>

fun manifest_loop ::
  "env \<Rightarrow> CmdGoCar \<Rightarrow> world \<Rightarrow> nat \<Rightarrow> string list \<Rightarrow> FileDesc list \<Rightarrow> error + FileDesc list" where
  "manifest_loop env cmdGoCar w i [] fileDescs = Inr fileDescs"
| "manifest_loop env cmdGoCar w i (line # lines) fileDescs =
     (if i = 0 then manifest_loop env cmdGoCar w (Suc i) lines fileDescs
      else (case manifest_row env cmdGoCar w line of
              Inl e \<Rightarrow> Inl e
            | Inr fileDesc \<Rightarrow>
                manifest_loop env cmdGoCar w (Suc i) lines (fileDescs @ [fileDesc])))"

text \<open>\<open>createFilesDescFromManifest\<close>, lines 200-281.\<close>

definition createFilesDescFromManifest ::
  "env \<Rightarrow> CmdGoCar \<Rightarrow> world \<Rightarrow> (error + FileDesc list) \<times> world" where
  "createFilesDescFromManifest env cmdGoCar w =
     (case ReadAllLines env (OutputDir cmdGoCar) manifestFilename w of
        Inl e \<Rightarrow> (Inl (External e), w)
      | Inr lines \<Rightarrow>
          (case manifest_loop env cmdGoCar w 0 lines [] of
             Inl e \<Rightarrow> (Inl e, w)
           | Inr fileDescs \<Rightarrow>
               (case WriteCarFilesToFiles env fileDescs (OutputDir cmdGoCar)
                       JSON_FILE_NAME_CAR_UPLOAD CSV_FILE_NAME_CAR_UPLOAD w of
                  (Inl e, w') \<Rightarrow> (Inl e, w')
                | (Inr _, w') \<Rightarrow> (Inr fileDescs, w'))))"

section \<open>The packaging and restore orchestrators\<close>

text \<open>Lines 143-155: one \<open>ChunkMulti\<close> call per entry of the input directory.\<close>

fun chunk_loop ::
  "env \<Rightarrow> CmdGoCar \<Rightarrow> int64 \<Rightarrow> string \<Rightarrow> string list \<Rightarrow> world \<Rightarrow> string option \<times> world" where
  "chunk_loop env cmdGoCar sliceSize carDir [] w = (None, w)"
| "chunk_loop env cmdGoCar sliceSize carDir (srcFile # srcFiles) w =
     (let parentPath = filepath_Join env (InputDir cmdGoCar) srcFile;
          targetPath = parentPath;
          graphName = srcFile
      in case ChunkMulti env sliceSize parentPath [targetPath] carDir graphName
                (Parallel cmdGoCar) w of
           (Some e, w') \<Rightarrow> (Some e, w')
         | (None, w') \<Rightarrow> chunk_loop env cmdGoCar sliceSize carDir srcFiles w')"

text \<open>\<open>CreateGoCarFiles\<close>, lines 100-167.\<close>

definition CreateGoCarFiles ::
  "env \<Rightarrow> CmdGoCar \<Rightarrow> world \<Rightarrow> (error + FileDesc list) \<times> world" where
  "CreateGoCarFiles env cmdGoCar w =
     (case CreateDirIfNotExists env (OutputDir cmdGoCar) DIR_NAME_OUTPUT w of
        (Some e, w1) \<Rightarrow> (Inl (External e), w1)
      | (None, w1) \<Rightarrow>
          (let sliceSize = GocarFileSizeLimit cmdGoCar
           in if sint sliceSize \<le> 0
              then (Inl (Errorf ''gocar file size limit is too smal''), w1)
              else
                (case ReadDir env (InputDir cmdGoCar) w1 of
                   Inl e \<Rightarrow> (Inl (External e), w1)
                 | Inr srcFiles \<Rightarrow>
                     (let carDir = OutputDir cmdGoCar
                      in case (if GocarFolderBased cmdGoCar
                               then (let parentPath = InputDir cmdGoCar;
                                         targetPath = parentPath;
                                         graphName = filepath_Base env parentPath
                                     in ChunkMulti env sliceSize parentPath [targetPath] carDir
                                          graphName (Parallel cmdGoCar) w1)
                               else chunk_loop env cmdGoCar sliceSize carDir srcFiles w1) of
                           (Some e, w2) \<Rightarrow> (Inl (External e), w2)
                         | (None, w2) \<Rightarrow>
                             (case createFilesDescFromManifest env cmdGoCar w2 of
                                (Inl e, w3) \<Rightarrow> (Inl e, w3)
                              | (Inr fileDescs, w3) \<Rightarrow> (Inr fileDescs, w3))))))"

text \<open>
  \<open>RestoreCarToFiles\<close>, lines 169-187. The calls of \<open>CarTo\<close> and \<open>Merge\<close> are
  statements: whatever they report is dropped, only the world they leave goes on.
\<close>

definition RestoreCarToFiles :: "env \<Rightarrow> CmdGoCar \<Rightarrow> world \<Rightarrow> error option \<times> world" where
  "RestoreCarToFiles env cmdGoCar w =
     (case CreateDirIfNotExists env (OutputDir cmdGoCar) DIR_NAME_OUTPUT w of
        (Some e, w1) \<Rightarrow> (Some (External e), w1)
      | (None, w1) \<Rightarrow>
          (let w2 = snd (CarTo env (InputDir cmdGoCar) (OutputDir cmdGoCar) (Parallel cmdGoCar) w1);
               w3 = snd (Merge env (OutputDir cmdGoCar) (Parallel cmdGoCar) w2)
           in (None, w3)))"

text \<open>The names the spec gives to the two errors built in this file.\<close>

definition ConfigurationError :: error where
  "ConfigurationError = Errorf ''gocar file size limit is too smal''"

definition ManifestFormatError :: error where
  "ManifestFormatError = Errorf ''not enough fields in manifest.csv''"

section \<open>The remote catalog client (client.go)\<close>

text \<open>
  Types that \<open>client.go\<close> uses and that are declared in other files of the package.
  Those whose fields it never reads are left unspecified; \<open>IpfsData\<close> and \<open>MetaConf\<close>
  have the fields that \<open>client.go\<close> reads and writes.
\<close>

typedecl Aria2Conf
typedecl DatasetListPager
typedecl SourceFileStatusPager
typedecl IpfsDataDetail
typedecl DownloadFileInfo
typedecl RebuildData

record IpfsData =
  IpfsCid :: string
  SourceName :: string
  DataSize :: int64
  IsDirectory :: bool
  DownloadUrl :: string

record MetaConf =
  MetaServer :: string
  IpfsApi :: string
  IpfsGateway :: string
  Aria2Conf :: "Aria2Conf option"

text \<open>Struct \<open>MetaClient\<close>; the pointer \<open>conf\<close> is an option.\<close>

record MetaClient =
  key :: string
  token :: string
  conf :: "MetaConf option"

text \<open>The values that the six operations put into \<open>Params []interface{}\<close>.\<close>

datatype rpc_param =
    ParamString string
  | ParamIpfsDataList "IpfsData list"
  | DatasetListReq string int int
  | SourceFileStatusReq string string int int
  | RebuildReq int64 "string list"

record JsonRpcParams =
  JsonRpc :: string
  Method :: string
  Params :: "rpc_param list"
  Id :: int

text \<open>The \<open>Result\<close> member of a decoded response, the only part the operations read.\<close>

record 'a RpcResult =
  Code :: string
  Message :: string
  Data :: 'a

text \<open>
  The calls that leave the file: \<open>httpRequestWithKey\<close>, which talks to the network
  (the state \<open>'net\<close>), and \<open>json.Unmarshal\<close> at each response type.
\<close>

record 'net client_env =
  httpRequestWithKey ::
    "string \<Rightarrow> string \<Rightarrow> string \<Rightarrow> string \<Rightarrow> JsonRpcParams \<Rightarrow> 'net \<Rightarrow> (string + string) \<times> 'net"
  unmarshal_StoreSourceFileResponse :: "string \<Rightarrow> string + int64 RpcResult"
  unmarshal_DatasetListResponse :: "string \<Rightarrow> string + DatasetListPager RpcResult"
  unmarshal_SourceFileStatusResponse :: "string \<Rightarrow> string + SourceFileStatusPager RpcResult"
  unmarshal_SourceFileInfoResponse :: "string \<Rightarrow> string + IpfsDataDetail list RpcResult"
  unmarshal_DownloadFileInfoResponse :: "string \<Rightarrow> string + DownloadFileInfo list RpcResult"
  unmarshal_JsonRpcResp :: "string \<Rightarrow> string + RebuildData list RpcResult"

text \<open>\<open>httpPost\<close>, lines 286-294.\<close>

definition httpPost ::
  "'net client_env \<Rightarrow> MetaClient \<Rightarrow> JsonRpcParams \<Rightarrow> 'net \<Rightarrow> (error + string) \<times> 'net" where
  "httpPost cenv m params net =
     (if key m = [] \<or> token m = []
      then (Inl (Errorf ''key or token is required''), net)
      else (case conf m of
              None \<Rightarrow> (Inl (Errorf ''meta server is required''), net)
            | Some c \<Rightarrow>
                (case httpRequestWithKey cenv ''POST'' (MetaServer c) (key m) (token m) params net of
                   (Inl e, net') \<Rightarrow> (Inl (External e), net')
                 | (Inr body, net') \<Rightarrow> (Inr body, net'))))"

text \<open>\<open>Backup\<close>, lines 142-166.\<close>

definition Backup ::
  "'net client_env \<Rightarrow> MetaClient \<Rightarrow> string \<Rightarrow> IpfsData list \<Rightarrow> 'net \<Rightarrow> (error + int64) \<times> 'net" where
  "Backup cenv m datasetName ipfsDataList net =
     (if length ipfsDataList = 0
      then (Inl (Errorf ''ipfsData is required''), net)
      else (case httpPost cenv m
                   \<lparr>JsonRpc = ''2.0'', Method = ''meta.StoreSourceFile'',
                    Params = [ParamString datasetName, ParamIpfsDataList ipfsDataList],
                    Id = 1\<rparr> net of
              (Inl e, net') \<Rightarrow> (Inl e, net')
            | (Inr response, net') \<Rightarrow>
                (case unmarshal_StoreSourceFileResponse cenv response of
                   Inl e \<Rightarrow> (Inl (External e), net')
                 | Inr res \<Rightarrow>
                     (if Code res \<noteq> ''success'' then (Inl (Errorf (Message res)), net')
                      else (Inr (Data res), net')))))"

text \<open>\<open>List\<close>, lines 169-189 (named after its receiver, as \<open>List\<close> is a theory of HOL).\<close>

definition MetaClient_List ::
  "'net client_env \<Rightarrow> MetaClient \<Rightarrow> string \<Rightarrow> int \<Rightarrow> int \<Rightarrow> 'net
     \<Rightarrow> (error + DatasetListPager) \<times> 'net" where
  "MetaClient_List cenv m datasetName pageNum sz net =
     (case httpPost cenv m
             \<lparr>JsonRpc = ''2.0'', Method = ''meta.GetDatasetList'',
              Params = [DatasetListReq datasetName pageNum sz], Id = 1\<rparr> net of
        (Inl e, net') \<Rightarrow> (Inl e, net')
      | (Inr response, net') \<Rightarrow>
          (case unmarshal_DatasetListResponse cenv response of
             Inl e \<Rightarrow> (Inl (External e), net')
           | Inr res \<Rightarrow>
               (if Code res \<noteq> ''success'' then (Inl (Errorf (Message res)), net')
                else (Inr (Data res), net'))))"

text \<open>\<open>ListStatus\<close>, lines 192-212.\<close>

definition ListStatus ::
  "'net client_env \<Rightarrow> MetaClient \<Rightarrow> string \<Rightarrow> string \<Rightarrow> int \<Rightarrow> int \<Rightarrow> 'net
     \<Rightarrow> (error + SourceFileStatusPager) \<times> 'net" where
  "ListStatus cenv m datasetName ipfsCid pageNum sz net =
     (case httpPost cenv m
             \<lparr>JsonRpc = ''2.0'', Method = ''meta.GetSourceFileStatus'',
              Params = [SourceFileStatusReq datasetName ipfsCid pageNum sz], Id = 1\<rparr> net of
        (Inl e, net') \<Rightarrow> (Inl e, net')
      | (Inr response, net') \<Rightarrow>
          (case unmarshal_SourceFileStatusResponse cenv response of
             Inl e \<Rightarrow> (Inl (External e), net')
           | Inr res \<Rightarrow>
               (if Code res \<noteq> ''success'' then (Inl (Errorf (Message res)), net')
                else (Inr (Data res), net'))))"

text \<open>\<open>SourceFileInfo\<close>, lines 214-233.\<close>

definition SourceFileInfo ::
  "'net client_env \<Rightarrow> MetaClient \<Rightarrow> string \<Rightarrow> 'net \<Rightarrow> (error + IpfsDataDetail list) \<times> 'net" where
  "SourceFileInfo cenv m ipfsCid net =
     (case httpPost cenv m
             \<lparr>JsonRpc = ''2.0'', Method = ''meta.GetSourceFileInfo'',
              Params = [ParamString ipfsCid], Id = 1\<rparr> net of
        (Inl e, net') \<Rightarrow> (Inl e, net')
      | (Inr response, net') \<Rightarrow>
          (case unmarshal_SourceFileInfoResponse cenv response of
             Inl e \<Rightarrow> (Inl (External e), net')
           | Inr res \<Rightarrow>
               (if Code res \<noteq> ''success'' then (Inl (Errorf (Message res)), net')
                else (Inr (Data res), net'))))"

text \<open>\<open>DownloadFileInfo\<close>, lines 235-255.\<close>

definition DownloadFileInfo ::
  "'net client_env \<Rightarrow> MetaClient \<Rightarrow> string \<Rightarrow> 'net \<Rightarrow> (error + DownloadFileInfo list) \<times> 'net" where
  "DownloadFileInfo cenv m ipfsCid net =
     (case httpPost cenv m
             \<lparr>JsonRpc = ''2.0'', Method = ''meta.GetDownloadFileInfoByIpfsCid'',
              Params = [ParamString ipfsCid], Id = 1\<rparr> net of
        (Inl e, net') \<Rightarrow> (Inl e, net')
      | (Inr response, net') \<Rightarrow>
          (case unmarshal_DownloadFileInfoResponse cenv response of
             Inl e \<Rightarrow> (Inl (External e), net')
           | Inr res \<Rightarrow>
               (if Code res \<noteq> ''success'' then (Inl (Errorf (Message res)), net')
                else (Inr (Data res), net'))))"

text \<open>\<open>Rebuild\<close>, lines 258-284.\<close>

definition Rebuild ::
  "'net client_env \<Rightarrow> MetaClient \<Rightarrow> int64 \<Rightarrow> string list \<Rightarrow> 'net
     \<Rightarrow> (error + RebuildData list) \<times> 'net" where
  "Rebuild cenv m datasetId ipfsCids net =
     (case httpPost cenv m
             \<lparr>JsonRpc = ''2.0'', Method = ''meta.DatasetRebuild'',
              Params = [RebuildReq datasetId ipfsCids], Id = 1\<rparr> net of
        (Inl e, net') \<Rightarrow> (Inl e, net')
      | (Inr response, net') \<Rightarrow>
          (case unmarshal_JsonRpcResp cenv response of
             Inl e \<Rightarrow> (Inl (External e), net')
           | Inr res \<Rightarrow>
               (if Code res \<noteq> ''success'' then (Inl (Errorf (Message res)), net')
                else (Inr (Data res), net'))))"

section \<open>Reading the model's output, and sample inputs\<close>

text \<open>The records of the CSV file at a path (none when there is no such file).\<close>

definition csv_file_records :: "world \<Rightarrow> string \<Rightarrow> string list list" where
  "csv_file_records w path = (case files w path of Some (CsvRecords rs) \<Rightarrow> rs | _ \<Rightarrow> [])"

text \<open>
  A sample run: a manifest of a header and one row whose detail has two links, a decoder
  that knows this detail and the empty object, an output directory that can be written,
  and restore primitives that both fail.
\<close>

definition example_json :: string where
  \<open>example_json = ''{"Link":[{"Name":"a","Size":100},{"Name":"b","Size":200}]}''\<close>

definition example_detail :: ManifestDetail where
  "example_detail =
     \<lparr>detail_Name = [], detail_Hash = [], detail_Size = 0,
      detail_Link = [\<lparr>link_Name = ''a'', link_Hash = [], link_Size = 100\<rparr>,
                     \<lparr>link_Name = ''b'', link_Hash = [], link_Size = 200\<rparr>]\<rparr>"

definition example_header :: string where
  "example_header = ''payload_cid,filename,piece_cid,piece_size,detail''"

definition example_row :: string where
  \<open>example_row =
     ''bafy1,a.car,baga1,1024,{"Link":[{"Name":"a","Size":100},{"Name":"b","Size":200}]}''\<close>

definition example_manifest :: "string list" where
  "example_manifest = [example_header, example_row]"

definition short_row_manifest :: "string list" where
  "short_row_manifest = [example_header, example_row, ''bafy2,b.car,baga2,2048'']"

definition no_links_manifest :: "string list" where
  "no_links_manifest = [example_header, example_row, ''bafy3,c.car,baga3,512,{}'']"

definition example_env :: "string list \<Rightarrow> env" where
  "example_env manifest =
     \<lparr>CreateDirIfNotExists = (\<lambda>dir name w. (None, w\<lparr>dirs := insert dir (dirs w)\<rparr>)),
      ReadDir = (\<lambda>dir w. Inr [''a'', ''b'']),
      ChunkMulti = (\<lambda>sliceSize parent targets carDir graphName parallel w. (None, w)),
      CarTo = (\<lambda>inputDir outputDir parallel w. (Some ''extract failed'', w)),
      Merge = (\<lambda>outputDir parallel w. (Some ''merge failed'', w)),
      ReadAllLines = (\<lambda>dir name w. Inr manifest),
      GetInt64FromStr = (\<lambda>s. if s = ''1024'' then 1024 else - 1),
      json_Unmarshal = (\<lambda>s. if s = example_json then Inr example_detail
                            else if s = ''{}''
                            then Inr \<lparr>detail_Name = [], detail_Hash = [], detail_Size = 0,
                                      detail_Link = []\<rparr>
                            else Inl ''unexpected end of JSON input''),
      IsFileExistsFullPath = (\<lambda>path w. False),
      MD5sum = (\<lambda>path w. Inr ''d41d8cd98f00b204e9800998ecf8427e''),
      filepath_Join = (\<lambda>dir name. dir @ ''/'' @ name),
      filepath_Base = (\<lambda>path. path),
      os_MkdirAll = (\<lambda>dir w. (None, w\<lparr>dirs := insert dir (dirs w)\<rparr>)),
      json_MarshalIndent = (\<lambda>fileDescs. Inr ''[]''),
      WriteFile_error = (\<lambda>path content w. None),
      os_Create_error = (\<lambda>path w. None),
      csv_Write_error = (\<lambda>path rec w. None)\<rparr>"

definition example_cmd :: "bool \<Rightarrow> CmdGoCar" where
  "example_cmd folderBased =
     \<lparr>OutputDir = ''out'', InputDir = ''in'', GenerateMd5 = False,
      GocarFileSizeLimit = 1024, GocarFolderBased = folderBased, Parallel = 1\<rparr>"

definition example_world :: world where
  "example_world = \<lparr>files = Map.empty, dirs = {}\<rparr>"


text \<open>The descriptor of the sample row under each policy.\<close>

definition example_desc :: "bool \<Rightarrow> FileDesc" where
  "example_desc folderBased =
     \<lparr>Uuid = [],
      SourceFileName = (if folderBased then ''in'' else ''a''),
      SourceFilePath = (if folderBased then ''in'' else ''in/a''),
      SourceFileMd5 = [],
      SourceFileSize = (if folderBased then 300 else 100),
      CarFileName = ''bafy1.car'', CarFilePath = ''out/bafy1.car'',
      CarFileMd5 = [], CarFileUrl = ''bafy1.car'', CarFileSize = 1024,
      PayloadCid = ''bafy1'', PieceCid = ''baga1'', StartEpoch = None,
      SourceId = None\<rparr>"

text \<open>The same, with an output directory that cannot be created.\<close>

definition failing_dir_env :: env where
  "failing_dir_env =
     (example_env example_manifest)
       \<lparr>CreateDirIfNotExists := (\<lambda>dir name w. (Some ''permission denied'', w))\<rparr>"

text \<open>
  The same, with restore primitives that leave their marks: extraction writes a part file
  and merging copies it to the final file; both still report a failure.
\<close>

definition restoring_env :: env where
  "restoring_env =
     (example_env example_manifest)
       \<lparr>CarTo := (\<lambda>inputDir outputDir parallel w.
                   (Some ''extract failed'',
                    w\<lparr>files := (files w)(outputDir @ ''/a.part'' \<mapsto> Bytes (''from '' @ inputDir))\<rparr>)),
        Merge := (\<lambda>outputDir parallel w.
                   (Some ''merge failed'',
                    w\<lparr>files := (files w)(outputDir @ ''/a'' \<mapsto>
                          (case files w (outputDir @ ''/a.part'') of
                             Some part \<Rightarrow> part
                           | None \<Rightarrow> Bytes []))\<rparr>))\<rparr>"

text \<open>A meta server that counts the requests it gets, and a client without a key.\<close>

definition example_client_env :: "nat client_env" where
  "example_client_env =
     \<lparr>httpRequestWithKey = (\<lambda>method url k t params net. (Inr ''{}'', Suc net)),
      unmarshal_StoreSourceFileResponse = (\<lambda>s. Inl ''unexpected end of JSON input''),
      unmarshal_DatasetListResponse = (\<lambda>s. Inl ''unexpected end of JSON input''),
      unmarshal_SourceFileStatusResponse = (\<lambda>s. Inl ''unexpected end of JSON input''),
      unmarshal_SourceFileInfoResponse = (\<lambda>s. Inl ''unexpected end of JSON input''),
      unmarshal_DownloadFileInfoResponse = (\<lambda>s. Inl ''unexpected end of JSON input''),
      unmarshal_JsonRpcResp = (\<lambda>s. Inl ''unexpected end of JSON input'')\<rparr>"

definition example_client :: MetaClient where
  "example_client =
     \<lparr>key = [], token = ''secret'',
      conf = Some \<lparr>MetaServer = ''http://meta'', IpfsApi = [], IpfsGateway = [],
                   Aria2Conf = None\<rparr>\<rparr>"

section \<open>Properties of the model\<close>

subsection \<open>Splitting and rejoining\<close>

text \<open>
  Splitting at a separator and joining with it again gives the string back; the loop of
  lines 230-232 is that joining, on the fields from index 4.
\<close>

lemma strings_Split_not_Nil: "strings_Split s sep \<noteq> []"
  by (induction s) (auto split: list.splits)

lemma rejoined_Cons: "fs \<noteq> [] \<Longrightarrow> rejoined (f # fs) sep = f @ sep @ rejoined fs sep"
  by (cases fs) auto

lemma rejoined_strings_Split: "rejoined (strings_Split s sep) [sep] = s"
proof (induction s)
  case Nil
  show ?case by simp
next
  case (Cons c cs)
  obtain f fs where split: "strings_Split cs sep = f # fs"
    using strings_Split_not_Nil [of cs sep] by (cases "strings_Split cs sep") auto
  show ?case
  proof (cases "c = sep")
    case True
    with Cons split show ?thesis by simp
  next
    case False
    with Cons split show ?thesis by (cases fs) auto
  qed
qed

lemma carFileDetail_loop_concat:
  "carFileDetail_loop flds i acc = acc @ concat (map ((#) CHR '','') (drop i flds))"
proof (induction flds i acc rule: carFileDetail_loop.induct)
  case (1 flds i acc)
  show ?case
  proof (cases "i < length flds")
    case True
    then have "drop i flds = flds ! i # drop (Suc i) flds"
      by (simp add: Cons_nth_drop_Suc)
    with True 1 show ?thesis
      by (subst carFileDetail_loop.simps) simp
  next
    case False
    then show ?thesis
      by (subst carFileDetail_loop.simps) simp
  qed
qed

lemma rejoined_concat:
  "rejoined (f # fs) sep = f @ concat (map (\<lambda>g. sep @ g) fs)"
  by (induction fs arbitrary: f) auto

lemma carFileDetail_of_rejoined:
  assumes "5 \<le> length flds"
  shows "carFileDetail_of flds = rejoined (drop 4 flds) '',''"
proof -
  from assms have "drop 4 flds = flds ! 4 # drop 5 flds"
    using Cons_nth_drop_Suc [of 4 flds] by simp
  then show ?thesis
    by (simp add: carFileDetail_of_def carFileDetail_loop_concat rejoined_concat)
qed

lemma rejoined_take_drop:
  "0 < n \<Longrightarrow> n < length fs \<Longrightarrow>
     rejoined fs sep = rejoined (take n fs) sep @ sep @ rejoined (drop n fs) sep"
proof (induction fs arbitrary: n)
  case Nil
  then show ?case by simp
next
  case (Cons f fs)
  then obtain k where n: "n = Suc k" by (cases n) auto
  show ?case
  proof (cases k)
    case 0
    with Cons.prems n show ?thesis by (cases fs) auto
  next
    case (Suc j)
    with Cons.prems n have "0 < k" "k < length fs" by auto
    from Cons.IH [OF this] have ih: "rejoined fs sep = rejoined (take k fs) sep @ sep @ rejoined (drop k fs) sep" .
    from \<open>k < length fs\<close> \<open>0 < k\<close> have ne: "fs \<noteq> []" "take k fs \<noteq> []" by auto
    show ?thesis
      using ih ne n by (simp add: rejoined_Cons)
  qed
qed

subsection \<open>One row\<close>

text \<open>
  What the two later steps of a row keep, and what a row that succeeds went through.
\<close>

lemma source_fields_keeps:
  assumes "source_fields env cmd d fd = Inr fd'"
  shows "PayloadCid fd' = PayloadCid fd" and "CarFileName fd' = CarFileName fd"
    and "CarFileUrl fd' = CarFileUrl fd" and "CarFilePath fd' = CarFilePath fd"
    and "SourceFileMd5 fd' = SourceFileMd5 fd" and "CarFileMd5 fd' = CarFileMd5 fd"
  using assms by (auto simp: source_fields_def split: if_splits list.splits)

lemma md5_fields_keeps:
  assumes "md5_fields env cmd w fd = Inr fd'"
  shows "PayloadCid fd' = PayloadCid fd" and "CarFileName fd' = CarFileName fd"
    and "CarFileUrl fd' = CarFileUrl fd" and "SourceFileSize fd' = SourceFileSize fd"
  using assms by (auto simp: md5_fields_def split: if_splits sum.splits)

lemma md5_fields_off:
  "\<not> GenerateMd5 cmd \<Longrightarrow> md5_fields env cmd w fd = Inr fd"
  by (simp add: md5_fields_def)

lemma add_link_sizes_sum:
  "add_link_sizes acc links = acc + sum_list (map link_Size links)"
  by (induction links arbitrary: acc) (simp_all add: add.assoc)

lemma source_fields_size:
  assumes "source_fields env cmd d fd = Inr fd'"
  shows "if GocarFolderBased cmd
         then SourceFileSize fd' = SourceFileSize fd + sum_list (map link_Size (detail_Link d))
         else detail_Link d \<noteq> [] \<and> SourceFileSize fd' = link_Size (hd (detail_Link d))"
  using assms
  by (auto simp: source_fields_def add_link_sizes_sum split: if_splits list.splits)

lemma source_fields_decoder:
  "source_fields (env\<lparr>json_Unmarshal := dec\<rparr>) cmd d fd = source_fields env cmd d fd"
  by (simp add: source_fields_def cong: list.case_cong)

lemma md5_fields_decoder:
  "md5_fields (env\<lparr>json_Unmarshal := dec\<rparr>) cmd w fd = md5_fields env cmd w fd"
  by (simp add: md5_fields_def cong: sum.case_cong)

lemma sum_list_word_of_int:
  "sum_list ws = (word_of_int (sum_list (map sint ws)) :: 'a::len word)"
  by (induction ws) simp_all

lemma sint_sum_list:
  fixes ws :: "int64 list"
  assumes "- (2 ^ 63) \<le> sum_list (map sint ws)" "sum_list (map sint ws) < 2 ^ 63"
  shows "sint (sum_list ws) = sum_list (map sint ws)"
proof -
  have "sint (sum_list ws) = signed_take_bit 63 (sum_list (map sint ws))"
    by (subst sum_list_word_of_int) (simp add: sint_sbintrunc')
  also have "\<dots> = sum_list (map sint ws)"
    using assms by (simp add: signed_take_bit_int_eq_self)
  finally show ?thesis .
qed

lemma manifest_row_Inr:
  assumes "manifest_row env cmd w line = Inr fd"
  obtains d fd1 fd2 where
    "5 \<le> length (strings_Split line CHR '','')"
    "json_Unmarshal env (carFileDetail_of (strings_Split line CHR '','')) = Inr d"
    "PayloadCid fd1 = strings_Split line CHR '','' ! 0"
    "CarFileName fd1 = PayloadCid fd1 @ ''.car''"
    "CarFileUrl fd1 = CarFileName fd1"
    "SourceFileSize fd1 = 0"
    "SourceFileMd5 fd1 = []" "CarFileMd5 fd1 = []"
    "source_fields env cmd d fd1 = Inr fd2"
    "md5_fields env cmd w fd2 = Inr fd"
proof -
  let ?f = "strings_Split line CHR '',''"
  define fd1 where "fd1 = FileDesc_zero
    \<lparr>PayloadCid := ?f ! 0, CarFileName := ?f ! 0 @ ''.car'', CarFileUrl := ?f ! 0 @ ''.car'',
     CarFilePath := filepath_Join env (OutputDir cmd) (?f ! 0 @ ''.car''),
     PieceCid := ?f ! 2, CarFileSize := GetInt64FromStr env (?f ! 3)\<rparr>"
  from assms have len: "5 \<le> length ?f"
    by (auto simp: manifest_row_def Let_def split: if_splits)
  with assms have
    "(case json_Unmarshal env (carFileDetail_of ?f) of
        Inl e \<Rightarrow> Inl (External e)
      | Inr d \<Rightarrow> (case source_fields env cmd d fd1 of
                    Inl e \<Rightarrow> Inl e
                  | Inr fd2 \<Rightarrow> md5_fields env cmd w fd2)) = Inr fd"
    by (auto simp: manifest_row_def Let_def fd1_def FileDesc_zero_def split: sum.splits)
  then obtain d fd2 where "json_Unmarshal env (carFileDetail_of ?f) = Inr d"
    and "source_fields env cmd d fd1 = Inr fd2" and "md5_fields env cmd w fd2 = Inr fd"
    by (auto split: sum.splits)
  moreover have "PayloadCid fd1 = ?f ! 0" "CarFileName fd1 = PayloadCid fd1 @ ''.car''"
    "CarFileUrl fd1 = CarFileName fd1" "SourceFileSize fd1 = 0"
    "SourceFileMd5 fd1 = []" "CarFileMd5 fd1 = []"
    by (simp_all add: fd1_def FileDesc_zero_def)
  ultimately show thesis using len that by blast
qed

lemma manifest_row_short:
  "length (strings_Split line CHR '','') < 5 \<Longrightarrow>
     manifest_row env cmd w line = Inl (Errorf ''not enough fields in manifest.csv'')"
  by (simp add: manifest_row_def manifestFilename_def)

lemma manifest_row_names:
  assumes "manifest_row env cmd w line = Inr fd"
  shows "CarFileName fd = PayloadCid fd @ ''.car'' \<and> CarFileUrl fd = CarFileName fd"
proof -
  from assms obtain d fd1 fd2 where
    "CarFileName fd1 = PayloadCid fd1 @ ''.car''" "CarFileUrl fd1 = CarFileName fd1"
    "source_fields env cmd d fd1 = Inr fd2" "md5_fields env cmd w fd2 = Inr fd"
    by (rule manifest_row_Inr)
  then show ?thesis
    by (simp add: source_fields_keeps md5_fields_keeps)
qed

lemma manifest_row_no_md5:
  assumes "manifest_row env cmd w line = Inr fd" and "\<not> GenerateMd5 cmd"
  shows "SourceFileMd5 fd = [] \<and> CarFileMd5 fd = []"
proof -
  from assms(1) obtain d fd1 fd2 where
    "SourceFileMd5 fd1 = []" "CarFileMd5 fd1 = []"
    "source_fields env cmd d fd1 = Inr fd2" "md5_fields env cmd w fd2 = Inr fd"
    by (rule manifest_row_Inr)
  with assms(2) show ?thesis
    by (simp add: source_fields_keeps md5_fields_off)
qed

lemma manifest_row_size:
  assumes "manifest_row env cmd w line = Inr fd"
  shows "\<exists>d. json_Unmarshal env (carFileDetail_of (strings_Split line CHR '','')) = Inr d \<and>
           (if GocarFolderBased cmd
            then SourceFileSize fd = sum_list (map link_Size (detail_Link d))
            else detail_Link d \<noteq> [] \<and> SourceFileSize fd = link_Size (hd (detail_Link d)))"
proof -
  from assms obtain d fd1 fd2 where
    d: "json_Unmarshal env (carFileDetail_of (strings_Split line CHR '','')) = Inr d"
    and "SourceFileSize fd1 = 0"
    and src: "source_fields env cmd d fd1 = Inr fd2" and "md5_fields env cmd w fd2 = Inr fd"
    by (rule manifest_row_Inr)
  with source_fields_size [OF src] have
    "if GocarFolderBased cmd
     then SourceFileSize fd = sum_list (map link_Size (detail_Link d))
     else detail_Link d \<noteq> [] \<and> SourceFileSize fd = link_Size (hd (detail_Link d))"
    by (simp add: md5_fields_keeps split: if_splits)
  with d show ?thesis by blast
qed

subsection \<open>The loop and the whole reconciliation\<close>

text \<open>
  A loop that succeeds has reconciled every data line, in order; a data line that fails
  makes the loop fail, with the error of the first such line.
\<close>

lemma manifest_loop_rows:
  "manifest_loop env cmd w i lines acc = Inr fds \<Longrightarrow>
     \<exists>new. fds = acc @ new \<and>
       list_all2 (\<lambda>line fd. manifest_row env cmd w line = Inr fd)
         (if i = 0 then tl lines else lines) new"
proof (induction lines arbitrary: i acc)
  case Nil
  then show ?case by simp
next
  case (Cons line lines)
  show ?case
  proof (cases "i = 0")
    case True
    with Cons.prems have "manifest_loop env cmd w (Suc 0) lines acc = Inr fds" by simp
    from Cons.IH [OF this] True show ?thesis by simp
  next
    case False
    with Cons.prems obtain fd where row: "manifest_row env cmd w line = Inr fd"
      and rest: "manifest_loop env cmd w (Suc i) lines (acc @ [fd]) = Inr fds"
      by (auto split: sum.splits)
    from Cons.IH [OF rest] obtain new where "fds = (acc @ [fd]) @ new"
      and "list_all2 (\<lambda>line fd. manifest_row env cmd w line = Inr fd) lines new"
      by auto
    with row False show ?thesis by (intro exI [of _ "fd # new"]) simp
  qed
qed

lemma createFilesDescFromManifest_rows:
  assumes "createFilesDescFromManifest env cmd w = (Inr fds, w')"
  obtains lines where "ReadAllLines env (OutputDir cmd) manifestFilename w = Inr lines"
    and "list_all2 (\<lambda>line fd. manifest_row env cmd w line = Inr fd) (tl lines) fds"
proof -
  from assms obtain lines where rd: "ReadAllLines env (OutputDir cmd) manifestFilename w = Inr lines"
    and lp: "manifest_loop env cmd w 0 lines [] = Inr fds"
    by (auto simp: createFilesDescFromManifest_def split: sum.splits prod.splits)
  from manifest_loop_rows [OF lp] rd that show thesis by auto
qed

lemma reconciled_nth:
  assumes "createFilesDescFromManifest env cmd w = (Inr fds, w')"
  shows "\<exists>lines. ReadAllLines env (OutputDir cmd) manifestFilename w = Inr lines
       \<and> length fds = length lines - 1
       \<and> (\<forall>k<length fds. manifest_row env cmd w (lines ! Suc k) = Inr (fds ! k))"
proof -
  from assms obtain lines where
    rd: "ReadAllLines env (OutputDir cmd) manifestFilename w = Inr lines"
    and rows: "list_all2 (\<lambda>line fd. manifest_row env cmd w line = Inr fd) (tl lines) fds"
    by (rule createFilesDescFromManifest_rows)
  from rows have len: "length fds = length lines - 1"
    by (simp add: list_all2_lengthD [symmetric])
  have "manifest_row env cmd w (lines ! Suc k) = Inr (fds ! k)" if "k < length fds" for k
  proof -
    from that rows have "manifest_row env cmd w (tl lines ! k) = Inr (fds ! k)"
      by (simp add: list_all2_conv_all_nth)
    moreover from that len have "tl lines ! k = lines ! Suc k"
      by (simp add: nth_tl)
    ultimately show ?thesis by simp
  qed
  with rd len show ?thesis by blast
qed

lemma reconciled_rows:
  assumes "createFilesDescFromManifest env cmd w = (Inr fds, w')"
    and "fd \<in> set fds"
  shows "\<exists>line. manifest_row env cmd w line = Inr fd"
proof -
  from assms(1) obtain lines where
    "list_all2 (\<lambda>line fd. manifest_row env cmd w line = Inr fd) (tl lines) fds"
    by (rule createFilesDescFromManifest_rows)
  with assms(2) show ?thesis
    by (auto simp: list_all2_conv_all_nth in_set_conv_nth)
qed

lemma CreateGoCarFiles_Inr:
  assumes "CreateGoCarFiles env cmd w = (Inr fds, w')"
  obtains w2 where "createFilesDescFromManifest env cmd w2 = (Inr fds, w')"
  using assms unfolding CreateGoCarFiles_def Let_def
  by (auto split: prod.splits option.splits if_splits sum.splits)

lemma manifest_loop_fails:
  "k < length lines \<Longrightarrow> (i = 0 \<longrightarrow> 0 < k) \<Longrightarrow> manifest_row env cmd w (lines ! k) = Inl e \<Longrightarrow>
     \<exists>e'. manifest_loop env cmd w i lines acc = Inl e'"
proof (induction lines arbitrary: i k acc)
  case Nil
  then show ?case by simp
next
  case (Cons line lines)
  show ?case
  proof (cases k)
    case 0
    with Cons.prems show ?thesis by simp
  next
    case (Suc k')
    with Cons.prems have "k' < length lines" "manifest_row env cmd w (lines ! k') = Inl e"
      by simp_all
    from Cons.IH [OF this(1) _ this(2), of "Suc i"] show ?thesis
      by (auto split: sum.splits)
  qed
qed

lemma manifest_loop_first_failure:
  "k < length lines \<Longrightarrow> (i = 0 \<longrightarrow> 0 < k) \<Longrightarrow> manifest_row env cmd w (lines ! k) = Inl e \<Longrightarrow>
   (\<forall>j<k. (i = 0 \<longrightarrow> 0 < j) \<longrightarrow> (\<exists>fd. manifest_row env cmd w (lines ! j) = Inr fd)) \<Longrightarrow>
     manifest_loop env cmd w i lines acc = Inl e"
proof (induction lines arbitrary: i k acc)
  case Nil
  then show ?case by simp
next
  case (Cons line lines)
  show ?case
  proof (cases k)
    case 0
    with Cons.prems show ?thesis by simp
  next
    case (Suc k')
    with Cons.prems have k': "k' < length lines" "manifest_row env cmd w (lines ! k') = Inl e"
      by simp_all
    have earlier: "\<forall>j<k'. (Suc i = 0 \<longrightarrow> 0 < j) \<longrightarrow> (\<exists>fd. manifest_row env cmd w (lines ! j) = Inr fd)"
    proof (intro allI impI)
      fix j assume "j < k'"
      then have "Suc j < k" using Suc by simp
      with Cons.prems(4) have "\<exists>fd. manifest_row env cmd w ((line # lines) ! Suc j) = Inr fd"
        by blast
      then show "\<exists>fd. manifest_row env cmd w (lines ! j) = Inr fd" by simp
    qed
    have rest: "manifest_loop env cmd w (Suc i) lines acc' = Inl e" for acc'
      using Cons.IH [OF k'(1) _ k'(2) earlier] by simp
    show ?thesis
    proof (cases "i = 0")
      case True
      with rest show ?thesis by simp
    next
      case False
      with Cons.prems(4) Suc have "\<exists>fd. manifest_row env cmd w ((line # lines) ! 0) = Inr fd"
        by (metis zero_less_Suc)
      then obtain fd where "manifest_row env cmd w line = Inr fd" by auto
      with False rest show ?thesis by simp
    qed
  qed
qed

lemma createFilesDescFromManifest_loop_Inl:
  "ReadAllLines env (OutputDir cmd) manifestFilename w = Inr lines \<Longrightarrow>
   manifest_loop env cmd w 0 lines [] = Inl e \<Longrightarrow>
     createFilesDescFromManifest env cmd w = (Inl e, w)"
  by (simp add: createFilesDescFromManifest_def)

lemma createFilesDescFromManifest_Inr:
  assumes "ReadAllLines env (OutputDir cmd) manifestFilename w = Inr lines"
    and "manifest_loop env cmd w 0 lines [] = Inr fds"
    and "fst (WriteCarFilesToFiles env fds (OutputDir cmd)
                JSON_FILE_NAME_CAR_UPLOAD CSV_FILE_NAME_CAR_UPLOAD w) = Inr p"
  shows "fst (createFilesDescFromManifest env cmd w) = Inr fds"
  using assms by (auto simp: createFilesDescFromManifest_def split: prod.splits sum.splits)

subsection \<open>The tabular export\<close>

text \<open>A write that succeeds leaves the header and one record per descriptor.\<close>

lemma length_csv_headers: "length csv_headers = 15"
  by (simp add: csv_headers_def)

lemma length_csv_columns: "length (csv_columns carFile) = 15"
  by (simp add: csv_columns_def)

lemma csv_Write_None:
  "csv_Write env path rec w = (None, w') \<Longrightarrow>
     csv_file_records w' path = csv_file_records w path @ [rec] \<and> files w' path \<noteq> None"
  by (auto simp: csv_Write_def csv_file_records_def split: option.splits file_content.splits)

lemma csv_rows_loop_None:
  "csv_rows_loop env path carFiles w = (None, w') \<Longrightarrow> files w path \<noteq> None \<Longrightarrow>
     csv_file_records w' path = csv_file_records w path @ map csv_columns carFiles
     \<and> files w' path \<noteq> None"
proof (induction carFiles arbitrary: w)
  case Nil
  then show ?case by simp
next
  case (Cons carFile carFiles)
  from Cons.prems(1) obtain w1 where
    first: "csv_Write env path (csv_columns carFile) w = (None, w1)"
    and rest: "csv_rows_loop env path carFiles w1 = (None, w')"
    by (auto split: prod.splits option.splits)
  from csv_Write_None [OF first] Cons.IH [OF rest] show ?case by simp
qed

lemma WriteCarFilesToCsvFile_None:
  assumes "WriteCarFilesToCsvFile env carFiles outDir csvFileName w = (None, w')"
  shows "csv_file_records w' (filepath_Join env outDir csvFileName)
           = csv_headers # map csv_columns carFiles"
    and "files w' (filepath_Join env outDir csvFileName) \<noteq> None"
proof -
  let ?path = "filepath_Join env outDir csvFileName"
  let ?w1 = "w\<lparr>files := (files w)(?path \<mapsto> CsvRecords [])\<rparr>"
  from assms obtain w2 where
    hdr: "csv_Write env ?path csv_headers ?w1 = (None, w2)"
    and rows: "csv_rows_loop env ?path carFiles w2 = (None, w')"
    by (auto simp: WriteCarFilesToCsvFile_def Let_def split: option.splits prod.splits)
  from csv_Write_None [OF hdr] have "csv_file_records w2 ?path = [csv_headers]" "files w2 ?path \<noteq> None"
    by (simp_all add: csv_file_records_def)
  with csv_rows_loop_None [OF rows]
  show "csv_file_records w' ?path = csv_headers # map csv_columns carFiles"
    and "files w' ?path \<noteq> None" by simp_all
qed

subsection \<open>The sample run\<close>

text \<open>The sample inputs, evaluated.\<close>

lemma pair_of_fst: "fst p = a \<Longrightarrow> p = (a, snd p)"
  by (cases p) simp

lemma split_example_row:
  \<open>strings_Split example_row CHR '','' =
     [''bafy1'', ''a.car'', ''baga1'', ''1024'', ''{"Link":[{"Name":"a"'', ''"Size":100}'',
      ''{"Name":"b"'', ''"Size":200}]}'']\<close>
  by (simp add: example_row_def)

lemma tail_example_row:
  "carFileDetail_of (strings_Split example_row CHR '','') = example_json"
  unfolding split_example_row
  by (simp add: carFileDetail_of_def carFileDetail_loop.simps example_json_def)

lemma manifest_row_example:
  "manifest_row (example_env ls) (example_cmd folderBased) w example_row =
     Inr (example_desc folderBased)"
  unfolding manifest_row_def Let_def tail_example_row
  unfolding split_example_row
  by (simp add: example_env_def example_cmd_def source_fields_def md5_fields_def
        example_detail_def FileDesc_zero_def example_desc_def)

lemma example_env_sel:
  "CreateDirIfNotExists (example_env ls) dir name w = (None, w\<lparr>dirs := insert dir (dirs w)\<rparr>)"
  "ReadDir (example_env ls) dir w = Inr [''a'', ''b'']"
  "ChunkMulti (example_env ls) sliceSize parent targets carDir graphName parallel w = (None, w)"
  "CarTo (example_env ls) inputDir outputDir parallel w = (Some ''extract failed'', w)"
  "Merge (example_env ls) outputDir parallel w = (Some ''merge failed'', w)"
  "ReadAllLines (example_env ls) dir name w = Inr ls"
  "filepath_Join (example_env ls) dir name = dir @ ''/'' @ name"
  "os_MkdirAll (example_env ls) dir w = (None, w\<lparr>dirs := insert dir (dirs w)\<rparr>)"
  "json_MarshalIndent (example_env ls) fileDescs = Inr ''[]''"
  "WriteFile_error (example_env ls) path content w = None"
  "os_Create_error (example_env ls) path w = None"
  "csv_Write_error (example_env ls) path rec w = None"
  by (simp_all add: example_env_def)

lemma csv_rows_loop_example:
  "fst (csv_rows_loop (example_env ls) path carFiles w) = None"
  by (induction carFiles arbitrary: w) (simp_all add: csv_Write_def example_env_sel)

lemma WriteCarFilesToCsvFile_example:
  "fst (WriteCarFilesToCsvFile (example_env ls) carFiles outDir csvFileName w) = None"
  by (simp add: WriteCarFilesToCsvFile_def csv_Write_def example_env_sel Let_def
        csv_rows_loop_example)

lemma WriteCarFilesToFiles_example:
  "fst (WriteCarFilesToFiles (example_env ls) carFiles outputDir jsonFilename csvFileName w)
     = Inr (outputDir @ ''/'' @ jsonFilename)"
  by (simp add: WriteCarFilesToFiles_def WriteFileDescsToJsonFile_def WriteCarFilesToCsvFile_def
        csv_Write_def example_env_sel Let_def csv_rows_loop_example split: prod.splits option.splits)
     (metis csv_rows_loop_example fst_conv option.distinct(1))

lemma example_reconciled:
  "fst (createFilesDescFromManifest (example_env example_manifest) (example_cmd folderBased) w)
     = Inr [example_desc folderBased]"
proof (rule createFilesDescFromManifest_Inr)
  show "ReadAllLines (example_env example_manifest) (OutputDir (example_cmd folderBased))
          manifestFilename w = Inr example_manifest"
    by (simp add: example_env_sel)
  show "manifest_loop (example_env example_manifest) (example_cmd folderBased) w 0
          example_manifest [] = Inr [example_desc folderBased]"
    by (simp add: example_manifest_def manifest_row_example)
  show "fst (WriteCarFilesToFiles (example_env example_manifest) [example_desc folderBased]
          (OutputDir (example_cmd folderBased)) JSON_FILE_NAME_CAR_UPLOAD CSV_FILE_NAME_CAR_UPLOAD
          w) = Inr (OutputDir (example_cmd folderBased) @ ''/'' @ JSON_FILE_NAME_CAR_UPLOAD)"
    by (rule WriteCarFilesToFiles_example)
qed

lemma chunk_loop_example:
  "chunk_loop (example_env ls) cmd sliceSize carDir srcFiles w = (None, w)"
  by (induction srcFiles) (simp_all add: example_env_sel)

lemma example_packaged:
  "fst (CreateGoCarFiles (example_env example_manifest) (example_cmd folderBased) w)
     = Inr [example_desc folderBased]"
proof -
  let ?w1 = "w\<lparr>dirs := insert (OutputDir (example_cmd folderBased)) (dirs w)\<rparr>"
  have "CreateGoCarFiles (example_env example_manifest) (example_cmd folderBased) w
      = (case createFilesDescFromManifest (example_env example_manifest) (example_cmd folderBased) ?w1 of
           (Inl e, w3) \<Rightarrow> (Inl e, w3)
         | (Inr fileDescs, w3) \<Rightarrow> (Inr fileDescs, w3))"
    by (simp add: CreateGoCarFiles_def example_env_sel chunk_loop_example Let_def)
       (simp add: example_cmd_def)
  moreover have "fst (createFilesDescFromManifest (example_env example_manifest)
      (example_cmd folderBased) ?w1) = Inr [example_desc folderBased]"
    by (rule example_reconciled)
  ultimately show ?thesis
    by (auto split: prod.splits sum.splits)
qed

lemma csv_columns_example:
  "csv_columns (example_desc True) =
     [[], ''in'', ''in'', [], ''300'', ''bafy1.car'', ''out/bafy1.car'', [], ''bafy1.car'',
      ''1024'', ''bafy1'', ''baga1'', [], [], []]"
  by (simp add: csv_columns_def example_desc_def FormatInt_def decimal_digits.simps)

section \<open>The claims\<close>

text \<open>
  Claim C1. For a manifest line that splits into at least 5 fields at the commas, the
  string built at lines 229-232 is the fields from index 4 onward joined again with
  commas, and the line is its first four fields, a comma, and that string: the string is
  the rest of the line from the fifth field on (the line without its first four fields
  and their commas), with the commas of the JSON fragment back in place. It is the
  string the JSON decoder gets: a decoder that fails on it fails the row with its error,
  and two decoders that agree on it give the same row.
\<close>

theorem manifest_tail_rejoined:
  assumes "5 \<le> length (strings_Split line CHR '','')"
  shows "carFileDetail_of (strings_Split line CHR '','')
           = rejoined (drop 4 (strings_Split line CHR '','')) '',''
       \<and> line = rejoined (take 4 (strings_Split line CHR '','')) '','' @ '','' @
                  carFileDetail_of (strings_Split line CHR '','')
       \<and> carFileDetail_of (strings_Split line CHR '','')
           = drop (Suc (length (rejoined (take 4 (strings_Split line CHR '','')) '',''))) line
       \<and> (\<forall>e. json_Unmarshal env (carFileDetail_of (strings_Split line CHR '','')) = Inl e \<longrightarrow>
              manifest_row env cmdGoCar w line = Inl (External e))
       \<and> (\<forall>dec dec'. dec (carFileDetail_of (strings_Split line CHR '',''))
                        = dec' (carFileDetail_of (strings_Split line CHR '','')) \<longrightarrow>
              manifest_row (env\<lparr>json_Unmarshal := dec\<rparr>) cmdGoCar w line
                = manifest_row (env\<lparr>json_Unmarshal := dec'\<rparr>) cmdGoCar w line)"
proof -
  let ?f = "strings_Split line CHR '',''"
  have tail: "carFileDetail_of ?f = rejoined (drop 4 ?f) '',''"
    using assms by (rule carFileDetail_of_rejoined)
  have "rejoined ?f '','' = rejoined (take 4 ?f) '','' @ '','' @ rejoined (drop 4 ?f) '',''"
    using assms by (intro rejoined_take_drop) simp_all
  then have whole: "line = rejoined (take 4 ?f) '','' @ '','' @ carFileDetail_of ?f"
    using rejoined_strings_Split [of line "CHR '',''"] tail by simp
  have failing: "manifest_row env cmdGoCar w line = Inl (External e)"
    if "json_Unmarshal env (carFileDetail_of ?f) = Inl e" for e
    using that assms by (simp add: manifest_row_def Let_def)
  have only: "manifest_row (env\<lparr>json_Unmarshal := dec\<rparr>) cmdGoCar w line
      = manifest_row (env\<lparr>json_Unmarshal := dec'\<rparr>) cmdGoCar w line"
    if "dec (carFileDetail_of ?f) = dec' (carFileDetail_of ?f)" for dec dec'
    using that
    by (simp add: manifest_row_def Let_def source_fields_decoder md5_fields_decoder
          cong: sum.case_cong)
  have "drop (Suc (length (rejoined (take 4 ?f) '','')))
          (rejoined (take 4 ?f) '','' @ '','' @ carFileDetail_of ?f) = carFileDetail_of ?f"
    by simp
  with whole have suffix: "carFileDetail_of ?f = drop (Suc (length (rejoined (take 4 ?f) '',''))) line"
    by simp
  from tail whole suffix failing only show ?thesis by blast
qed

theorem manifest_tail_rejoined_witness:
  "5 \<le> length (strings_Split example_row CHR '','')
   \<and> carFileDetail_of (strings_Split example_row CHR '','') = example_json
   \<and> rejoined (drop 4 (strings_Split example_row CHR '','')) '','' = example_json
   \<and> example_row = ''bafy1,a.car,baga1,1024'' @ '','' @ example_json
   \<and> drop 23 example_row = example_json
   \<and> manifest_row ((example_env example_manifest)\<lparr>json_Unmarshal := (\<lambda>s. Inl ''invalid character'')\<rparr>)
        (example_cmd True) example_world example_row = Inl (External ''invalid character'')
   \<and> manifest_row ((example_env example_manifest)
          \<lparr>json_Unmarshal := (\<lambda>s. if s = example_json then Inr example_detail else Inl ''eof'')\<rparr>)
        (example_cmd True) example_world example_row
      = manifest_row ((example_env example_manifest)\<lparr>json_Unmarshal := (\<lambda>s. Inr example_detail)\<rparr>)
        (example_cmd True) example_world example_row"
proof -
  let ?f = "strings_Split example_row CHR '',''"
  let ?bad = "(example_env example_manifest)\<lparr>json_Unmarshal := (\<lambda>s. Inl ''invalid character'')\<rparr>"
  have len: "5 \<le> length ?f"
    by (simp add: split_example_row)
  note t = manifest_tail_rejoined [OF len]
  from t [of ?bad "example_cmd True" example_world]
  have bad: "manifest_row ?bad (example_cmd True) example_world example_row
      = Inl (External ''invalid character'')"
    by simp
  from t [of "example_env example_manifest" "example_cmd True" example_world]
  have tail: "carFileDetail_of ?f = rejoined (drop 4 ?f) '',''"
    and whole: "example_row = rejoined (take 4 ?f) '','' @ '','' @ carFileDetail_of ?f"
    and suffix: "carFileDetail_of ?f = drop (Suc (length (rejoined (take 4 ?f) '',''))) example_row"
    and only: "\<And>dec dec'. dec (carFileDetail_of ?f) = dec' (carFileDetail_of ?f) \<Longrightarrow>
       manifest_row ((example_env example_manifest)\<lparr>json_Unmarshal := dec\<rparr>)
          (example_cmd True) example_world example_row
       = manifest_row ((example_env example_manifest)\<lparr>json_Unmarshal := dec'\<rparr>)
          (example_cmd True) example_world example_row"
    by blast+
  have first4: "rejoined (take 4 ?f) '','' = ''bafy1,a.car,baga1,1024''"
    by (simp add: split_example_row)
  with whole tail_example_row
  have whole': "example_row = ''bafy1,a.car,baga1,1024'' @ '','' @ example_json"
    by simp
  have "Suc (length (rejoined (take 4 ?f) '','')) = 23"
    by (simp add: first4)
  with suffix tail_example_row have suffix': "drop 23 example_row = example_json"
    by (simp only:)
  from only [of "\<lambda>s. if s = example_json then Inr example_detail else Inl ''eof''"
                "\<lambda>s. Inr example_detail"] tail_example_row
  have same: "manifest_row ((example_env example_manifest)
          \<lparr>json_Unmarshal := (\<lambda>s. if s = example_json then Inr example_detail else Inl ''eof'')\<rparr>)
        (example_cmd True) example_world example_row
      = manifest_row ((example_env example_manifest)\<lparr>json_Unmarshal := (\<lambda>s. Inr example_detail)\<rparr>)
        (example_cmd True) example_world example_row"
    by simp
  from len tail tail_example_row whole' suffix' bad same show ?thesis
    by simp
qed

text \<open>
  Claim C2. A data line of the manifest (any line after the header) that splits into
  fewer than 5 fields makes its row fail with the error "not enough fields in
  manifest.csv" (the spec's \<open>ManifestFormatError\<close>); the reconciliation then ends
  without a descriptor list (at the first data line that fails) and leaves the world as
  it found it, so no catalog file is written; and when the data lines before it
  reconcile, what it returns is that \<open>ManifestFormatError\<close>.
\<close>

theorem short_row_aborts:
  assumes "ReadAllLines env (OutputDir cmdGoCar) manifestFilename w = Inr lines"
    and "0 < k" and "k < length lines"
    and "length (strings_Split (lines ! k) CHR '','') < 5"
  shows "manifest_row env cmdGoCar w (lines ! k) = Inl ManifestFormatError
       \<and> (\<exists>e. createFilesDescFromManifest env cmdGoCar w = (Inl e, w))
       \<and> ((\<forall>j. 0 < j \<and> j < k \<longrightarrow> (\<exists>fd. manifest_row env cmdGoCar w (lines ! j) = Inr fd)) \<longrightarrow>
             createFilesDescFromManifest env cmdGoCar w = (Inl ManifestFormatError, w))"
proof -
  have row: "manifest_row env cmdGoCar w (lines ! k) = Inl ManifestFormatError"
    using assms(4) by (simp add: manifest_row_short ManifestFormatError_def)
  from manifest_loop_fails [OF assms(3) _ row, of 0 "[]"] assms(2)
  obtain e where "manifest_loop env cmdGoCar w 0 lines [] = Inl e" by auto
  with assms(1) have abort: "\<exists>e. createFilesDescFromManifest env cmdGoCar w = (Inl e, w)"
    by (auto dest: createFilesDescFromManifest_loop_Inl)
  have first: "createFilesDescFromManifest env cmdGoCar w = (Inl ManifestFormatError, w)"
    if "\<forall>j. 0 < j \<and> j < k \<longrightarrow> (\<exists>fd. manifest_row env cmdGoCar w (lines ! j) = Inr fd)"
  proof -
    from that have "\<forall>j<k. ((0::nat) = 0 \<longrightarrow> 0 < j) \<longrightarrow>
        (\<exists>fd. manifest_row env cmdGoCar w (lines ! j) = Inr fd)"
      by simp
    from manifest_loop_first_failure [OF assms(3) _ row this, of "[]"] assms(2)
    have "manifest_loop env cmdGoCar w 0 lines [] = Inl ManifestFormatError" by simp
    with assms(1) show ?thesis by (rule createFilesDescFromManifest_loop_Inl)
  qed
  from row abort first show ?thesis by blast
qed

theorem short_row_aborts_witness:
  "ReadAllLines (example_env short_row_manifest) (OutputDir (example_cmd True)) manifestFilename
      example_world = Inr short_row_manifest
   \<and> strings_Split (short_row_manifest ! 2) CHR '','' = [''bafy2'', ''b.car'', ''baga2'', ''2048'']
   \<and> manifest_row (example_env short_row_manifest) (example_cmd True) example_world
        (short_row_manifest ! 1) = Inr (example_desc True)
   \<and> manifest_row (example_env short_row_manifest) (example_cmd True) example_world
        (short_row_manifest ! 2) = Inl ManifestFormatError
   \<and> createFilesDescFromManifest (example_env short_row_manifest) (example_cmd True) example_world
        = (Inl ManifestFormatError, example_world)"
proof -
  let ?env = "example_env short_row_manifest"
  have rd: "ReadAllLines ?env (OutputDir (example_cmd True)) manifestFilename example_world
      = Inr short_row_manifest"
    by (simp add: example_env_sel)
  have split: "strings_Split (short_row_manifest ! 2) CHR '','' = [''bafy2'', ''b.car'', ''baga2'', ''2048'']"
    by (simp add: short_row_manifest_def)
  have row1: "manifest_row ?env (example_cmd True) example_world (short_row_manifest ! 1)
      = Inr (example_desc True)"
    by (simp add: short_row_manifest_def manifest_row_example)
  have earlier: "\<exists>fd. manifest_row ?env (example_cmd True) example_world (short_row_manifest ! j) = Inr fd"
    if "0 < j \<and> j < 2" for j
  proof -
    from that have "j = 1" by simp
    with row1 show ?thesis by simp
  qed
  have "0 < (2::nat)" "2 < length short_row_manifest"
    "length (strings_Split (short_row_manifest ! 2) CHR '','') < 5"
    by (simp_all add: split) (simp add: short_row_manifest_def)
  from short_row_aborts [OF rd this] earlier
  have "manifest_row ?env (example_cmd True) example_world (short_row_manifest ! 2) = Inl ManifestFormatError"
    and "createFilesDescFromManifest ?env (example_cmd True) example_world = (Inl ManifestFormatError, example_world)"
    by blast+
  with rd split row1 show ?thesis by simp
qed

text \<open>
  Claim C3. A row that reconciles has a decoded detail, and its descriptor's
  \<open>SourceFileSize\<close> is, under the whole-directory policy, the sum of the sizes of all
  links of that detail (the 64-bit sum of the Go code, which is the sum of the signed
  sizes whenever that sum fits 64 bits), and, under the per-entry policy, the size of the
  first link, which then exists. The descriptors of a reconciliation that succeeds are
  the rows of the data lines, in order.
\<close>

theorem source_size_by_policy:
  "(manifest_row env cmdGoCar w line = Inr fileDesc \<longrightarrow>
      (\<exists>manifestDetail.
         json_Unmarshal env (carFileDetail_of (strings_Split line CHR '','')) = Inr manifestDetail
       \<and> (GocarFolderBased cmdGoCar \<longrightarrow>
            SourceFileSize fileDesc = sum_list (map link_Size (detail_Link manifestDetail))
          \<and> (- (2 ^ 63) \<le> sum_list (map (sint \<circ> link_Size) (detail_Link manifestDetail))
             \<and> sum_list (map (sint \<circ> link_Size) (detail_Link manifestDetail)) < 2 ^ 63 \<longrightarrow>
              sint (SourceFileSize fileDesc)
                = sum_list (map (sint \<circ> link_Size) (detail_Link manifestDetail))))
       \<and> (\<not> GocarFolderBased cmdGoCar \<longrightarrow>
            detail_Link manifestDetail \<noteq> []
          \<and> SourceFileSize fileDesc = link_Size (detail_Link manifestDetail ! 0))))
   \<and> (createFilesDescFromManifest env cmdGoCar w = (Inr fileDescs, w') \<longrightarrow>
      (\<exists>lines. ReadAllLines env (OutputDir cmdGoCar) manifestFilename w = Inr lines
         \<and> length fileDescs = length lines - 1
         \<and> (\<forall>k<length fileDescs.
               manifest_row env cmdGoCar w (lines ! Suc k) = Inr (fileDescs ! k))))"
proof (intro conjI impI)
  assume "manifest_row env cmdGoCar w line = Inr fileDesc"
  from manifest_row_size [OF this] obtain d where
    d: "json_Unmarshal env (carFileDetail_of (strings_Split line CHR '','')) = Inr d"
    and sz: "if GocarFolderBased cmdGoCar
       then SourceFileSize fileDesc = sum_list (map link_Size (detail_Link d))
       else detail_Link d \<noteq> [] \<and> SourceFileSize fileDesc = link_Size (hd (detail_Link d))"
    by blast
  have "sint (sum_list (map link_Size (detail_Link d)))
      = sum_list (map (sint \<circ> link_Size) (detail_Link d))"
    if "- (2 ^ 63) \<le> sum_list (map (sint \<circ> link_Size) (detail_Link d))"
      "sum_list (map (sint \<circ> link_Size) (detail_Link d)) < 2 ^ 63"
    using sint_sum_list [of "map link_Size (detail_Link d)"] that by simp
  with d sz show "\<exists>manifestDetail.
         json_Unmarshal env (carFileDetail_of (strings_Split line CHR '','')) = Inr manifestDetail
       \<and> (GocarFolderBased cmdGoCar \<longrightarrow>
            SourceFileSize fileDesc = sum_list (map link_Size (detail_Link manifestDetail))
          \<and> (- (2 ^ 63) \<le> sum_list (map (sint \<circ> link_Size) (detail_Link manifestDetail))
             \<and> sum_list (map (sint \<circ> link_Size) (detail_Link manifestDetail)) < 2 ^ 63 \<longrightarrow>
              sint (SourceFileSize fileDesc)
                = sum_list (map (sint \<circ> link_Size) (detail_Link manifestDetail))))
       \<and> (\<not> GocarFolderBased cmdGoCar \<longrightarrow>
            detail_Link manifestDetail \<noteq> []
          \<and> SourceFileSize fileDesc = link_Size (detail_Link manifestDetail ! 0))"
    by (intro exI [of _ d]) (auto simp: hd_conv_nth split: if_splits)
next
  assume "createFilesDescFromManifest env cmdGoCar w = (Inr fileDescs, w')"
  then show "\<exists>lines. ReadAllLines env (OutputDir cmdGoCar) manifestFilename w = Inr lines
         \<and> length fileDescs = length lines - 1
         \<and> (\<forall>k<length fileDescs.
               manifest_row env cmdGoCar w (lines ! Suc k) = Inr (fileDescs ! k))"
    by (rule reconciled_nth)
qed

theorem source_size_by_policy_witness:
  "manifest_row (example_env example_manifest) (example_cmd True) example_world example_row
     = Inr (example_desc True)
   \<and> manifest_row (example_env example_manifest) (example_cmd False) example_world example_row
     = Inr (example_desc False)
   \<and> json_Unmarshal (example_env example_manifest)
        (carFileDetail_of (strings_Split example_row CHR '','')) = Inr example_detail
   \<and> map link_Size (detail_Link example_detail) = [100, 200]
   \<and> SourceFileSize (example_desc True) = sum_list (map link_Size (detail_Link example_detail))
   \<and> sint (SourceFileSize (example_desc True)) = 300
   \<and> SourceFileSize (example_desc False) = link_Size (detail_Link example_detail ! 0)
   \<and> sint (SourceFileSize (example_desc False)) = 100
   \<and> createFilesDescFromManifest (example_env example_manifest) (example_cmd True) example_world
     = (Inr [example_desc True],
        snd (createFilesDescFromManifest (example_env example_manifest) (example_cmd True) example_world))
   \<and> ReadAllLines (example_env example_manifest) (OutputDir (example_cmd True)) manifestFilename
        example_world = Inr example_manifest
   \<and> manifest_row (example_env example_manifest) (example_cmd True) example_world
        (example_manifest ! Suc 0) = Inr ([example_desc True] ! 0)"
proof -
  let ?env = "example_env example_manifest"
  let ?tail = "carFileDetail_of (strings_Split example_row CHR '','')"
  have row: "manifest_row ?env (example_cmd fb) example_world example_row = Inr (example_desc fb)"
    for fb
    by (rule manifest_row_example)
  have run: "createFilesDescFromManifest ?env (example_cmd True) example_world
     = (Inr [example_desc True],
        snd (createFilesDescFromManifest ?env (example_cmd True) example_world))"
    by (rule pair_of_fst) (rule example_reconciled)
  have rd: "ReadAllLines ?env (OutputDir (example_cmd True)) manifestFilename example_world
      = Inr example_manifest"
    by (simp add: example_env_sel)
  have dec: "json_Unmarshal ?env ?tail = Inr example_detail"
    by (simp add: tail_example_row) (simp add: example_env_def)
  have sizes: "map link_Size (detail_Link example_detail) = [100, 200]"
    by (simp add: example_detail_def)
  have policy: "GocarFolderBased (example_cmd fb) = fb" for fb
    by (simp add: example_cmd_def)
  note t = source_size_by_policy [of ?env _ example_world example_row _ "[example_desc True]"
      "snd (createFilesDescFromManifest ?env (example_cmd True) example_world)"]
  from t [of "example_cmd True" "example_desc True"] row [of True] dec
  have folder: "SourceFileSize (example_desc True) = sum_list (map link_Size (detail_Link example_detail))"
    and "- (2 ^ 63) \<le> sum_list (map (sint \<circ> link_Size) (detail_Link example_detail))
         \<and> sum_list (map (sint \<circ> link_Size) (detail_Link example_detail)) < 2 ^ 63 \<longrightarrow>
         sint (SourceFileSize (example_desc True))
           = sum_list (map (sint \<circ> link_Size) (detail_Link example_detail))"
    by (auto simp: policy)
  then have folder_int: "sint (SourceFileSize (example_desc True)) = 300"
    by (simp add: example_detail_def)
  from t [of "example_cmd False" "example_desc False"] row [of False] dec
  have entry: "SourceFileSize (example_desc False) = link_Size (detail_Link example_detail ! 0)"
    by (auto simp: policy)
  then have entry_int: "sint (SourceFileSize (example_desc False)) = 100"
    by (simp add: example_detail_def)
  from t [of "example_cmd True" "example_desc True"] run rd
  have nth: "manifest_row ?env (example_cmd True) example_world (example_manifest ! Suc 0)
      = Inr ([example_desc True] ! 0)"
    by auto
  from row [of True] row [of False] dec sizes folder folder_int entry entry_int run rd nth
  show ?thesis by blast
qed

text \<open>
  Claim C4, as stated, fails: the first column of the header that
  \<open>WriteCarFilesToCsvFile\<close> writes is named \<open>uuid\<close>, not \<open>id\<close>.
\<close>

theorem csv_header_counterexample:
  "fst (WriteCarFilesToCsvFile (example_env example_manifest) [] ''out'' ''car.csv'' example_world)
     = None
   \<and> csv_file_records
        (snd (WriteCarFilesToCsvFile (example_env example_manifest) [] ''out'' ''car.csv''
                example_world)) ''out/car.csv'' ! 0 ! 0 = ''uuid''
   \<and> csv_file_records
        (snd (WriteCarFilesToCsvFile (example_env example_manifest) [] ''out'' ''car.csv''
                example_world)) ''out/car.csv'' ! 0
      \<noteq> [''id'', ''source_file_name'', ''source_file_path'', ''source_file_md5'',
          ''source_file_size'', ''car_file_name'', ''car_file_path'', ''car_file_md5'',
          ''car_file_url'', ''car_file_size'', ''pay_load_cid'', ''piece_cid'',
          ''start_epoch'', ''source_id'', ''deals'']"
  by (simp add: WriteCarFilesToCsvFile_def csv_Write_def example_env_sel Let_def
        csv_file_records_def csv_headers_def example_world_def)

text \<open>
  Claim C4, amended. A tabular export that succeeds leaves a file whose first record is
  the header of exactly 15 columns uuid, source_file_name, source_file_path,
  source_file_md5, source_file_size, car_file_name, car_file_path, car_file_md5,
  car_file_url, car_file_size, pay_load_cid, piece_cid, start_epoch, source_id, deals, in
  this order, followed by one record per descriptor, in order; every record has exactly
  15 columns.
\<close>

theorem csv_export_columns:
  assumes "WriteCarFilesToCsvFile env carFiles outDir csvFileName w = (None, w')"
  shows "files w' (filepath_Join env outDir csvFileName) \<noteq> None
       \<and> length (csv_file_records w' (filepath_Join env outDir csvFileName)) = Suc (length carFiles)
       \<and> csv_file_records w' (filepath_Join env outDir csvFileName) ! 0 =
           [''uuid'', ''source_file_name'', ''source_file_path'', ''source_file_md5'',
            ''source_file_size'', ''car_file_name'', ''car_file_path'', ''car_file_md5'',
            ''car_file_url'', ''car_file_size'', ''pay_load_cid'', ''piece_cid'',
            ''start_epoch'', ''source_id'', ''deals'']
       \<and> (\<forall>r \<in> set (csv_file_records w' (filepath_Join env outDir csvFileName)). length r = 15)
       \<and> (\<forall>k<length carFiles.
            csv_file_records w' (filepath_Join env outDir csvFileName) ! Suc k = csv_columns (carFiles ! k))"
proof -
  note recs = WriteCarFilesToCsvFile_None [OF assms]
  have "\<forall>r \<in> set (csv_headers # map csv_columns carFiles). length r = 15"
    by (auto simp: length_csv_headers length_csv_columns)
  moreover have "csv_headers =
           [''uuid'', ''source_file_name'', ''source_file_path'', ''source_file_md5'',
            ''source_file_size'', ''car_file_name'', ''car_file_path'', ''car_file_md5'',
            ''car_file_url'', ''car_file_size'', ''pay_load_cid'', ''piece_cid'',
            ''start_epoch'', ''source_id'', ''deals'']"
    by (simp add: csv_headers_def)
  ultimately show ?thesis using recs by simp
qed

theorem csv_export_columns_witness:
  "WriteCarFilesToCsvFile (example_env example_manifest) [example_desc True] ''out'' ''car.csv''
       example_world
     = (None, snd (WriteCarFilesToCsvFile (example_env example_manifest) [example_desc True]
                     ''out'' ''car.csv'' example_world))
   \<and> filepath_Join (example_env example_manifest) ''out'' ''car.csv'' = ''out/car.csv''
   \<and> length (csv_file_records
        (snd (WriteCarFilesToCsvFile (example_env example_manifest) [example_desc True]
                ''out'' ''car.csv'' example_world)) ''out/car.csv'') = 2
   \<and> csv_file_records
        (snd (WriteCarFilesToCsvFile (example_env example_manifest) [example_desc True]
                ''out'' ''car.csv'' example_world)) ''out/car.csv'' ! 0
      = [''uuid'', ''source_file_name'', ''source_file_path'', ''source_file_md5'',
         ''source_file_size'', ''car_file_name'', ''car_file_path'', ''car_file_md5'',
         ''car_file_url'', ''car_file_size'', ''pay_load_cid'', ''piece_cid'',
         ''start_epoch'', ''source_id'', ''deals'']
   \<and> csv_file_records
        (snd (WriteCarFilesToCsvFile (example_env example_manifest) [example_desc True]
                ''out'' ''car.csv'' example_world)) ''out/car.csv'' ! 1
      = [[], ''in'', ''in'', [], ''300'', ''bafy1.car'', ''out/bafy1.car'', [], ''bafy1.car'',
         ''1024'', ''bafy1'', ''baga1'', [], [], []]
   \<and> length (csv_file_records
        (snd (WriteCarFilesToCsvFile (example_env example_manifest) [example_desc True]
                ''out'' ''car.csv'' example_world)) ''out/car.csv'' ! 1) = 15"
proof -
  let ?run = "WriteCarFilesToCsvFile (example_env example_manifest) [example_desc True]
                ''out'' ''car.csv'' example_world"
  have run: "?run = (None, snd ?run)"
    by (rule pair_of_fst) (rule WriteCarFilesToCsvFile_example)
  have path: "filepath_Join (example_env example_manifest) ''out'' ''car.csv'' = ''out/car.csv''"
    by (simp add: example_env_sel)
  note t = csv_export_columns [OF run, unfolded path]
  from t have len: "length (csv_file_records (snd ?run) ''out/car.csv'') = 2"
    by simp
  from t have hdr: "csv_file_records (snd ?run) ''out/car.csv'' ! 0
      = [''uuid'', ''source_file_name'', ''source_file_path'', ''source_file_md5'',
         ''source_file_size'', ''car_file_name'', ''car_file_path'', ''car_file_md5'',
         ''car_file_url'', ''car_file_size'', ''pay_load_cid'', ''piece_cid'',
         ''start_epoch'', ''source_id'', ''deals'']"
    by blast
  from t have "\<forall>k<length [example_desc True].
      csv_file_records (snd ?run) ''out/car.csv'' ! Suc k = csv_columns ([example_desc True] ! k)"
    by blast
  then have "csv_file_records (snd ?run) ''out/car.csv'' ! 1 = csv_columns (example_desc True)"
    by simp
  then have row: "csv_file_records (snd ?run) ''out/car.csv'' ! 1
      = [[], ''in'', ''in'', [], ''300'', ''bafy1.car'', ''out/bafy1.car'', [], ''bafy1.car'',
         ''1024'', ''bafy1'', ''baga1'', [], [], []]"
    by (simp add: csv_columns_example)
  from t len have "\<forall>r \<in> set (csv_file_records (snd ?run) ''out/car.csv''). length r = 15"
    by blast
  with len have cols: "length (csv_file_records (snd ?run) ''out/car.csv'' ! 1) = 15"
    by simp
  from run path len hdr row cols show ?thesis
    by blast
qed

text \<open>
  Claim C5. Every descriptor of a row that reconciles, and so every descriptor that
  \<open>createFilesDescFromManifest\<close> or \<open>CreateGoCarFiles\<close> returns, has
  \<open>CarFileName = PayloadCid + ".car"\<close> and \<open>CarFileUrl = CarFileName\<close>, whatever the
  policy and the checksum setting.
\<close>

theorem archive_name_invariant:
  assumes "manifest_row env cmdGoCar w line = Inr fileDesc
         \<or> fileDesc \<in> set fileDescs
           \<and> (createFilesDescFromManifest env cmdGoCar w = (Inr fileDescs, w')
              \<or> CreateGoCarFiles env cmdGoCar w = (Inr fileDescs, w'))"
  shows "CarFileName fileDesc = PayloadCid fileDesc @ ''.car''
       \<and> CarFileUrl fileDesc = CarFileName fileDesc"
proof -
  from assms obtain w0 line0 where "manifest_row env cmdGoCar w0 line0 = Inr fileDesc"
    by (auto elim!: CreateGoCarFiles_Inr dest: reconciled_rows)
  then show ?thesis
    by (rule manifest_row_names)
qed

theorem archive_name_invariant_witness:
  "CreateGoCarFiles (example_env example_manifest) (example_cmd False) example_world
     = (Inr [example_desc False],
        snd (CreateGoCarFiles (example_env example_manifest) (example_cmd False) example_world))
   \<and> example_desc False \<in> set [example_desc False]
   \<and> PayloadCid (example_desc False) = ''bafy1''
   \<and> CarFileName (example_desc False) = ''bafy1.car''
   \<and> CarFileName (example_desc False) = PayloadCid (example_desc False) @ ''.car''
   \<and> CarFileUrl (example_desc False) = CarFileName (example_desc False)"
proof -
  have run: "CreateGoCarFiles (example_env example_manifest) (example_cmd False) example_world
     = (Inr [example_desc False],
        snd (CreateGoCarFiles (example_env example_manifest) (example_cmd False) example_world))"
    by (rule pair_of_fst) (rule example_packaged)
  have mem: "example_desc False \<in> set [example_desc False]"
    by simp
  from archive_name_invariant [OF disjI2 [OF conjI [OF mem disjI2 [OF run]]]]
  have "CarFileName (example_desc False) = PayloadCid (example_desc False) @ ''.car''"
    and "CarFileUrl (example_desc False) = CarFileName (example_desc False)"
    by simp_all
  moreover have "PayloadCid (example_desc False) = ''bafy1''"
    by (simp add: example_desc_def)
  ultimately show ?thesis using run mem by simp
qed

text \<open>
  Claim C6, as stated, fails: \<open>CreateGoCarFiles\<close> ensures the output directory before
  it looks at the size limit, so with a size limit of 0 and an output directory that
  cannot be created the error returned is the directory's, not the
  \<open>ConfigurationError\<close>.
\<close>

theorem size_limit_counterexample:
  "sint (GocarFileSizeLimit ((example_cmd True)\<lparr>GocarFileSizeLimit := 0\<rparr>)) \<le> 0
   \<and> CreateGoCarFiles failing_dir_env ((example_cmd True)\<lparr>GocarFileSizeLimit := 0\<rparr>) example_world
       = (Inl (External ''permission denied''), example_world)
   \<and> External ''permission denied'' \<noteq> ConfigurationError"
  by (simp add: CreateGoCarFiles_def failing_dir_env_def ConfigurationError_def)

text \<open>
  Claim C6, amended. With a size limit \<open>\<le> 0\<close>, \<open>CreateGoCarFiles\<close> always fails and
  returns no descriptors, and neither the input directory's listing, nor the slicer, nor
  the manifest is consulted; the error is the \<open>ConfigurationError\<close> when ensuring the
  output directory succeeded, and the error of that step when it failed.
\<close>

theorem size_limit_check:
  assumes "sint (GocarFileSizeLimit cmdGoCar) \<le> 0"
  shows "(\<exists>e w'. CreateGoCarFiles env cmdGoCar w = (Inl e, w'))
       \<and> (\<forall>w1. CreateDirIfNotExists env (OutputDir cmdGoCar) DIR_NAME_OUTPUT w = (None, w1) \<longrightarrow>
             CreateGoCarFiles env cmdGoCar w = (Inl ConfigurationError, w1))
       \<and> (\<forall>e w1. CreateDirIfNotExists env (OutputDir cmdGoCar) DIR_NAME_OUTPUT w = (Some e, w1) \<longrightarrow>
             CreateGoCarFiles env cmdGoCar w = (Inl (External e), w1))
       \<and> (\<forall>readDir chunk readLines.
             CreateGoCarFiles
               (env\<lparr>ReadDir := readDir, ChunkMulti := chunk, ReadAllLines := readLines\<rparr>) cmdGoCar w
             = CreateGoCarFiles env cmdGoCar w)"
proof (cases "CreateDirIfNotExists env (OutputDir cmdGoCar) DIR_NAME_OUTPUT w")
  case (Pair err w1)
  show ?thesis
  proof (cases err)
    case None
    with Pair assms show ?thesis
      by (simp add: CreateGoCarFiles_def Let_def ConfigurationError_def)
  next
    case (Some e)
    with Pair show ?thesis
      by (simp add: CreateGoCarFiles_def)
  qed
qed

theorem size_limit_check_witness:
  "sint (GocarFileSizeLimit ((example_cmd True)\<lparr>GocarFileSizeLimit := - 1\<rparr>)) \<le> 0
   \<and> CreateDirIfNotExists (example_env example_manifest) ''out'' DIR_NAME_OUTPUT example_world
       = (None, example_world\<lparr>dirs := {''out''}\<rparr>)
   \<and> CreateGoCarFiles (example_env example_manifest)
        ((example_cmd True)\<lparr>GocarFileSizeLimit := - 1\<rparr>) example_world
       = (Inl ConfigurationError, example_world\<lparr>dirs := {''out''}\<rparr>)
   \<and> CreateGoCarFiles
        ((example_env example_manifest)
           \<lparr>ReadDir := (\<lambda>dir w. Inl ''no such directory''),
            ChunkMulti := (\<lambda>sliceSize parent targets carDir graphName parallel w. (Some ''failed'', w)),
            ReadAllLines := (\<lambda>dir name w. Inl ''no manifest'')\<rparr>)
        ((example_cmd True)\<lparr>GocarFileSizeLimit := - 1\<rparr>) example_world
       = (Inl ConfigurationError, example_world\<lparr>dirs := {''out''}\<rparr>)
   \<and> CreateDirIfNotExists failing_dir_env ''out'' DIR_NAME_OUTPUT example_world
       = (Some ''permission denied'', example_world)
   \<and> CreateGoCarFiles failing_dir_env ((example_cmd True)\<lparr>GocarFileSizeLimit := - 1\<rparr>) example_world
       = (Inl (External ''permission denied''), example_world)"
proof -
  let ?cmd = "(example_cmd True)\<lparr>GocarFileSizeLimit := - 1\<rparr>"
  let ?env = "example_env example_manifest"
  have limit: "sint (GocarFileSizeLimit ?cmd) \<le> 0"
    by simp
  have out: "OutputDir ?cmd = ''out''"
    by (simp add: example_cmd_def)
  have ok: "CreateDirIfNotExists ?env ''out'' DIR_NAME_OUTPUT example_world
      = (None, example_world\<lparr>dirs := {''out''}\<rparr>)"
    by (simp add: example_env_sel example_world_def)
  have bad: "CreateDirIfNotExists failing_dir_env ''out'' DIR_NAME_OUTPUT example_world
      = (Some ''permission denied'', example_world)"
    by (simp add: failing_dir_env_def)
  note t = size_limit_check [OF limit, of ?env example_world, unfolded out]
  from t ok have r1: "CreateGoCarFiles ?env ?cmd example_world
      = (Inl ConfigurationError, example_world\<lparr>dirs := {''out''}\<rparr>)"
    by blast
  from t have "CreateGoCarFiles
        (?env\<lparr>ReadDir := (\<lambda>dir w. Inl ''no such directory''),
            ChunkMulti := (\<lambda>sliceSize parent targets carDir graphName parallel w. (Some ''failed'', w)),
            ReadAllLines := (\<lambda>dir name w. Inl ''no manifest'')\<rparr>) ?cmd example_world
       = CreateGoCarFiles ?env ?cmd example_world"
    by blast
  with r1 have r2: "CreateGoCarFiles
        (?env\<lparr>ReadDir := (\<lambda>dir w. Inl ''no such directory''),
            ChunkMulti := (\<lambda>sliceSize parent targets carDir graphName parallel w. (Some ''failed'', w)),
            ReadAllLines := (\<lambda>dir name w. Inl ''no manifest'')\<rparr>) ?cmd example_world
       = (Inl ConfigurationError, example_world\<lparr>dirs := {''out''}\<rparr>)"
    by simp
  from size_limit_check [OF limit, of failing_dir_env example_world, unfolded out] bad
  have r3: "CreateGoCarFiles failing_dir_env ?cmd example_world
      = (Inl (External ''permission denied''), example_world)"
    by blast
  from limit ok r1 r2 bad r3 show ?thesis
    by blast
qed

text \<open>
  Claim C7. When \<open>GenerateMd5\<close> is false, every descriptor of a row that reconciles,
  and so every descriptor that \<open>createFilesDescFromManifest\<close> or \<open>CreateGoCarFiles\<close>
  returns, has the empty string as \<open>SourceFileMd5\<close> and as \<open>CarFileMd5\<close>.
\<close>

theorem no_checksums_when_not_requested:
  assumes "\<not> GenerateMd5 cmdGoCar"
    and "manifest_row env cmdGoCar w line = Inr fileDesc
         \<or> fileDesc \<in> set fileDescs
           \<and> (createFilesDescFromManifest env cmdGoCar w = (Inr fileDescs, w')
              \<or> CreateGoCarFiles env cmdGoCar w = (Inr fileDescs, w'))"
  shows "SourceFileMd5 fileDesc = [] \<and> CarFileMd5 fileDesc = []"
proof -
  from assms(2) obtain w0 line0 where "manifest_row env cmdGoCar w0 line0 = Inr fileDesc"
    by (auto elim!: CreateGoCarFiles_Inr dest: reconciled_rows)
  then show ?thesis
    using assms(1) by (rule manifest_row_no_md5)
qed

theorem no_checksums_when_not_requested_witness:
  "\<not> GenerateMd5 (example_cmd True)
   \<and> createFilesDescFromManifest (example_env example_manifest) (example_cmd True) example_world
     = (Inr [example_desc True],
        snd (createFilesDescFromManifest (example_env example_manifest) (example_cmd True) example_world))
   \<and> example_desc True \<in> set [example_desc True]
   \<and> SourceFileMd5 (example_desc True) = []
   \<and> CarFileMd5 (example_desc True) = []"
proof -
  have off: "\<not> GenerateMd5 (example_cmd True)"
    by (simp add: example_cmd_def)
  have run: "createFilesDescFromManifest (example_env example_manifest) (example_cmd True) example_world
     = (Inr [example_desc True],
        snd (createFilesDescFromManifest (example_env example_manifest) (example_cmd True) example_world))"
    by (rule pair_of_fst) (rule example_reconciled)
  have mem: "example_desc True \<in> set [example_desc True]"
    by simp
  from no_checksums_when_not_requested [OF off disjI2 [OF conjI [OF mem disjI1 [OF run]]]] off run mem
  show ?thesis by simp
qed

text \<open>
  Claim C8. Under the per-entry policy, a row whose decoded detail has no links ends in
  the panic of \<open>manifestDetail.Link[0]\<close>, not in an error value; and a manifest in
  which such a row is the first to fail makes the whole reconciliation end in that panic.
  The witness gives such an input: a row whose detail is the empty JSON object.
\<close>

theorem first_link_unguarded:
  assumes "\<not> GocarFolderBased cmdGoCar"
    and "5 \<le> length (strings_Split line CHR '','')"
    and "json_Unmarshal env (carFileDetail_of (strings_Split line CHR '','')) = Inr manifestDetail"
    and "detail_Link manifestDetail = []"
  shows "manifest_row env cmdGoCar w line = Inl (Panic ''index out of range [0] with length 0'')
       \<and> (\<forall>lines k. ReadAllLines env (OutputDir cmdGoCar) manifestFilename w = Inr lines
              \<and> 0 < k \<and> k < length lines \<and> lines ! k = line
              \<and> (\<forall>j. 0 < j \<and> j < k \<longrightarrow> (\<exists>fd. manifest_row env cmdGoCar w (lines ! j) = Inr fd)) \<longrightarrow>
            createFilesDescFromManifest env cmdGoCar w
              = (Inl (Panic ''index out of range [0] with length 0''), w))"
proof -
  have row: "manifest_row env cmdGoCar w line = Inl (Panic ''index out of range [0] with length 0'')"
    using assms by (simp add: manifest_row_def Let_def source_fields_def)
  have run: "createFilesDescFromManifest env cmdGoCar w
      = (Inl (Panic ''index out of range [0] with length 0''), w)"
    if rd: "ReadAllLines env (OutputDir cmdGoCar) manifestFilename w = Inr lines"
      and k: "0 < k" "k < length lines" "lines ! k = line"
      and earlier: "\<forall>j. 0 < j \<and> j < k \<longrightarrow> (\<exists>fd. manifest_row env cmdGoCar w (lines ! j) = Inr fd)"
    for lines k
  proof -
    from earlier have "\<forall>j<k. ((0::nat) = 0 \<longrightarrow> 0 < j) \<longrightarrow>
        (\<exists>fd. manifest_row env cmdGoCar w (lines ! j) = Inr fd)"
      by simp
    from manifest_loop_first_failure [OF k(2) _ _ this, of _ "[]"] row k
    have "manifest_loop env cmdGoCar w 0 lines [] = Inl (Panic ''index out of range [0] with length 0'')"
      by simp
    with rd show ?thesis by (rule createFilesDescFromManifest_loop_Inl)
  qed
  from row run show ?thesis by blast
qed

theorem first_link_unguarded_witness:
  "\<not> GocarFolderBased (example_cmd False)
   \<and> strings_Split (no_links_manifest ! 2) CHR '','' = [''bafy3'', ''c.car'', ''baga3'', ''512'', ''{}'']
   \<and> json_Unmarshal (example_env no_links_manifest)
        (carFileDetail_of (strings_Split (no_links_manifest ! 2) CHR '',''))
      = Inr \<lparr>detail_Name = [], detail_Hash = [], detail_Size = 0, detail_Link = []\<rparr>
   \<and> manifest_row (example_env no_links_manifest) (example_cmd False) example_world
        (no_links_manifest ! 1) = Inr (example_desc False)
   \<and> manifest_row (example_env no_links_manifest) (example_cmd False) example_world
        (no_links_manifest ! 2) = Inl (Panic ''index out of range [0] with length 0'')
   \<and> createFilesDescFromManifest (example_env no_links_manifest) (example_cmd False) example_world
      = (Inl (Panic ''index out of range [0] with length 0''), example_world)"
proof -
  let ?env = "example_env no_links_manifest"
  let ?line = "no_links_manifest ! 2"
  let ?d = "\<lparr>detail_Name = [], detail_Hash = [], detail_Size = 0, detail_Link = []\<rparr>"
  have policy: "\<not> GocarFolderBased (example_cmd False)"
    by (simp add: example_cmd_def)
  have split: "strings_Split ?line CHR '','' = [''bafy3'', ''c.car'', ''baga3'', ''512'', ''{}'']"
    by (simp add: no_links_manifest_def)
  then have len: "5 \<le> length (strings_Split ?line CHR '','')"
    by simp
  have "carFileDetail_of (strings_Split ?line CHR '','') = ''{}''"
    unfolding split by (simp add: carFileDetail_of_def carFileDetail_loop.simps)
  then have dec: "json_Unmarshal ?env (carFileDetail_of (strings_Split ?line CHR '','')) = Inr ?d"
    by (simp add: example_env_def example_json_def)
  have none: "detail_Link ?d = []"
    by simp
  have row1: "manifest_row ?env (example_cmd False) example_world (no_links_manifest ! 1)
      = Inr (example_desc False)"
    by (simp add: no_links_manifest_def manifest_row_example)
  have rd: "ReadAllLines ?env (OutputDir (example_cmd False)) manifestFilename example_world
      = Inr no_links_manifest"
    by (simp add: example_env_sel)
  have earlier: "\<forall>j. 0 < j \<and> j < 2 \<longrightarrow>
      (\<exists>fd. manifest_row ?env (example_cmd False) example_world (no_links_manifest ! j) = Inr fd)"
  proof (intro allI impI)
    fix j :: nat assume "0 < j \<and> j < 2"
    then have "j = 1" by simp
    with row1 show "\<exists>fd. manifest_row ?env (example_cmd False) example_world (no_links_manifest ! j) = Inr fd"
      by simp
  qed
  have k: "0 < (2::nat)" "2 < length no_links_manifest"
    by (simp_all add: no_links_manifest_def)
  note t = first_link_unguarded [OF policy len dec none, of example_world]
  from t have row: "manifest_row ?env (example_cmd False) example_world ?line
      = Inl (Panic ''index out of range [0] with length 0'')"
    by blast
  from t rd k earlier
  have "createFilesDescFromManifest ?env (example_cmd False) example_world
      = (Inl (Panic ''index out of range [0] with length 0''), example_world)"
    by blast
  with policy split dec row1 row show ?thesis by simp
qed

text \<open>
  Claim C9. \<open>RestoreCarToFiles\<close> returns an error exactly when ensuring the output
  directory returns one, and what it returns does not depend on the extract and merge
  primitives, whatever they report. When the directory step succeeds, it returns no
  error and leaves the world that \<open>Merge\<close> leaves after \<open>CarTo\<close>, both called on the
  world of the directory step, in this order; when the directory step fails, it returns
  that error and the world of that step, and neither primitive is called.
\<close>

theorem restore_error_iff:
  "(fst (RestoreCarToFiles env cmdGoCar w) \<noteq> None)
     = (fst (CreateDirIfNotExists env (OutputDir cmdGoCar) DIR_NAME_OUTPUT w) \<noteq> None)
   \<and> fst (RestoreCarToFiles (env\<lparr>CarTo := extract, Merge := merge\<rparr>) cmdGoCar w)
       = fst (RestoreCarToFiles env cmdGoCar w)
   \<and> (\<forall>w1. CreateDirIfNotExists env (OutputDir cmdGoCar) DIR_NAME_OUTPUT w = (None, w1) \<longrightarrow>
         RestoreCarToFiles env cmdGoCar w
           = (None,
              snd (Merge env (OutputDir cmdGoCar) (Parallel cmdGoCar)
                    (snd (CarTo env (InputDir cmdGoCar) (OutputDir cmdGoCar) (Parallel cmdGoCar)
                           w1)))))
   \<and> (\<forall>e w1. CreateDirIfNotExists env (OutputDir cmdGoCar) DIR_NAME_OUTPUT w = (Some e, w1) \<longrightarrow>
         RestoreCarToFiles env cmdGoCar w = (Some (External e), w1))"
proof (cases "CreateDirIfNotExists env (OutputDir cmdGoCar) DIR_NAME_OUTPUT w")
  case (Pair err w1)
  show ?thesis
  proof (cases err)
    case None
    with Pair show ?thesis
      by (simp add: RestoreCarToFiles_def Let_def)
  next
    case (Some e)
    with Pair show ?thesis
      by (simp add: RestoreCarToFiles_def)
  qed
qed

theorem restore_error_iff_witness:
  "CreateDirIfNotExists restoring_env ''out'' DIR_NAME_OUTPUT example_world
     = (None, example_world\<lparr>dirs := {''out''}\<rparr>)
   \<and> fst (CarTo restoring_env ''in'' ''out'' 1 (example_world\<lparr>dirs := {''out''}\<rparr>))
     = Some ''extract failed''
   \<and> fst (Merge restoring_env ''out'' 1
            (snd (CarTo restoring_env ''in'' ''out'' 1 (example_world\<lparr>dirs := {''out''}\<rparr>))))
     = Some ''merge failed''
   \<and> fst (RestoreCarToFiles restoring_env (example_cmd True) example_world) = None
   \<and> files (snd (RestoreCarToFiles restoring_env (example_cmd True) example_world)) ''out/a.part''
     = Some (Bytes ''from in'')
   \<and> files (snd (RestoreCarToFiles restoring_env (example_cmd True) example_world)) ''out/a''
     = Some (Bytes ''from in'')
   \<and> dirs (snd (RestoreCarToFiles restoring_env (example_cmd True) example_world)) = {''out''}
   \<and> CreateDirIfNotExists failing_dir_env ''out'' DIR_NAME_OUTPUT example_world
     = (Some ''permission denied'', example_world)
   \<and> RestoreCarToFiles failing_dir_env (example_cmd True) example_world
     = (Some (External ''permission denied''), example_world)"
proof -
  let ?w1 = "example_world\<lparr>dirs := {''out''}\<rparr>"
  have cmd: "OutputDir (example_cmd True) = ''out''" "InputDir (example_cmd True) = ''in''"
    "Parallel (example_cmd True) = 1"
    by (simp_all add: example_cmd_def)
  have ok: "CreateDirIfNotExists restoring_env ''out'' DIR_NAME_OUTPUT example_world = (None, ?w1)"
    by (simp add: restoring_env_def example_env_def example_world_def)
  have bad: "CreateDirIfNotExists failing_dir_env ''out'' DIR_NAME_OUTPUT example_world
      = (Some ''permission denied'', example_world)"
    by (simp add: failing_dir_env_def)
  have ext: "CarTo restoring_env ''in'' ''out'' 1 ?w1
      = (Some ''extract failed'', ?w1\<lparr>files := (files ?w1)(''out/a.part'' \<mapsto> Bytes ''from in'')\<rparr>)"
    by (simp add: restoring_env_def)
  have mrg: "Merge restoring_env ''out'' 1 (snd (CarTo restoring_env ''in'' ''out'' 1 ?w1))
      = (Some ''merge failed'',
         ?w1\<lparr>files := (files ?w1)(''out/a.part'' \<mapsto> Bytes ''from in'',
                                     ''out/a'' \<mapsto> Bytes ''from in'')\<rparr>)"
    unfolding ext by (simp add: restoring_env_def)
  note t = restore_error_iff [of restoring_env "example_cmd True" example_world, unfolded cmd]
  from t ok have run: "RestoreCarToFiles restoring_env (example_cmd True) example_world
      = (None, snd (Merge restoring_env ''out'' 1 (snd (CarTo restoring_env ''in'' ''out'' 1 ?w1))))"
    by blast
  from restore_error_iff [of failing_dir_env "example_cmd True" example_world, unfolded cmd] bad
  have failed: "RestoreCarToFiles failing_dir_env (example_cmd True) example_world
      = (Some (External ''permission denied''), example_world)"
    by blast
  from run mrg have
    "fst (RestoreCarToFiles restoring_env (example_cmd True) example_world) = None"
    "files (snd (RestoreCarToFiles restoring_env (example_cmd True) example_world)) ''out/a.part''
       = Some (Bytes ''from in'')"
    "files (snd (RestoreCarToFiles restoring_env (example_cmd True) example_world)) ''out/a''
       = Some (Bytes ''from in'')"
    "dirs (snd (RestoreCarToFiles restoring_env (example_cmd True) example_world)) = {''out''}"
    by (simp_all add: example_world_def)
  with ok bad failed ext mrg show ?thesis
    by simp
qed

text \<open>
  Claim C10. When the client's key or token is empty, or it has no configuration,
  \<open>httpPost\<close> and each of \<open>Backup\<close>, \<open>List\<close>, \<open>ListStatus\<close>, \<open>SourceFileInfo\<close>,
  \<open>DownloadFileInfo\<close> and \<open>Rebuild\<close> returns an error built in this file and leaves
  the network state as it was: \<open>httpRequestWithKey\<close> is not reached.
\<close>

theorem post_requires_credentials:
  assumes "key m = [] \<or> token m = [] \<or> conf m = None"
  shows "let e = Errorf (if key m = [] \<or> token m = [] then ''key or token is required''
                         else ''meta server is required'')
         in httpPost cenv m params net = (Inl e, net)
          \<and> Backup cenv m datasetName ipfsDataList net
              = (Inl (if length ipfsDataList = 0 then Errorf ''ipfsData is required'' else e), net)
          \<and> MetaClient_List cenv m datasetName pageNum sz net = (Inl e, net)
          \<and> ListStatus cenv m datasetName ipfsCid pageNum sz net = (Inl e, net)
          \<and> SourceFileInfo cenv m ipfsCid net = (Inl e, net)
          \<and> DownloadFileInfo cenv m ipfsCid net = (Inl e, net)
          \<and> Rebuild cenv m datasetId ipfsCids net = (Inl e, net)"
proof -
  define e where "e = Errorf (if key m = [] \<or> token m = [] then ''key or token is required''
                         else ''meta server is required'')"
  have post: "httpPost cenv m p net = (Inl e, net)" for p
    using assms by (auto simp: httpPost_def e_def)
  have "Backup cenv m datasetName ipfsDataList net
          = (Inl (if length ipfsDataList = 0 then Errorf ''ipfsData is required'' else e), net)"
    by (simp add: Backup_def post)
  moreover have "MetaClient_List cenv m datasetName pageNum sz net = (Inl e, net)"
    by (simp add: MetaClient_List_def post)
  moreover have "ListStatus cenv m datasetName ipfsCid pageNum sz net = (Inl e, net)"
    by (simp add: ListStatus_def post)
  moreover have "SourceFileInfo cenv m ipfsCid net = (Inl e, net)"
    by (simp add: SourceFileInfo_def post)
  moreover have "DownloadFileInfo cenv m ipfsCid net = (Inl e, net)"
    by (simp add: DownloadFileInfo_def post)
  moreover have "Rebuild cenv m datasetId ipfsCids net = (Inl e, net)"
    by (simp add: Rebuild_def post)
  ultimately show ?thesis
    using post [of params] unfolding Let_def e_def [symmetric] by blast
qed

theorem post_requires_credentials_witness:
  "key example_client = []
   \<and> httpPost example_client_env example_client
        \<lparr>JsonRpc = ''2.0'', Method = ''meta.GetSourceFileInfo'', Params = [ParamString ''bafy1''],
         Id = 1\<rparr> 0 = (Inl (Errorf ''key or token is required''), 0)
   \<and> Backup example_client_env example_client ''dataset''
        [\<lparr>IpfsCid = ''bafy1'', SourceName = ''a'', DataSize = 100, IsDirectory = False,
          DownloadUrl = ''http://gateway/ipfs/bafy1''\<rparr>] 0
       = (Inl (Errorf ''key or token is required''), 0)
   \<and> MetaClient_List example_client_env example_client ''dataset'' 1 10 0
       = (Inl (Errorf ''key or token is required''), 0)
   \<and> ListStatus example_client_env example_client ''dataset'' ''bafy1'' 1 10 0
       = (Inl (Errorf ''key or token is required''), 0)
   \<and> SourceFileInfo example_client_env example_client ''bafy1'' 0
       = (Inl (Errorf ''key or token is required''), 0)
   \<and> DownloadFileInfo example_client_env example_client ''bafy1'' 0
       = (Inl (Errorf ''key or token is required''), 0)
   \<and> Rebuild example_client_env example_client 7 [''bafy1''] 0
       = (Inl (Errorf ''key or token is required''), 0)
   \<and> fst (httpPost example_client_env (example_client\<lparr>key := ''k''\<rparr>)
        \<lparr>JsonRpc = ''2.0'', Method = ''meta.GetSourceFileInfo'', Params = [ParamString ''bafy1''],
         Id = 1\<rparr> 0) = Inr ''{}''
   \<and> snd (httpPost example_client_env (example_client\<lparr>key := ''k''\<rparr>)
        \<lparr>JsonRpc = ''2.0'', Method = ''meta.GetSourceFileInfo'', Params = [ParamString ''bafy1''],
         Id = 1\<rparr> 0) = 1"
proof -
  have k: "key example_client = []"
    by (simp add: example_client_def)
  then have hyp: "key example_client = [] \<or> token example_client = [] \<or> conf example_client = None"
    by simp
  note t = post_requires_credentials [OF hyp, of example_client_env _ 0 "''dataset''"
      "[\<lparr>IpfsCid = ''bafy1'', SourceName = ''a'', DataSize = 100, IsDirectory = False,
          DownloadUrl = ''http://gateway/ipfs/bafy1''\<rparr>]" 1 10 "''bafy1''" 7 "[''bafy1'']",
      unfolded Let_def]
  have sent: "httpPost example_client_env (example_client\<lparr>key := ''k''\<rparr>)
        \<lparr>JsonRpc = ''2.0'', Method = ''meta.GetSourceFileInfo'', Params = [ParamString ''bafy1''],
         Id = 1\<rparr> 0 = (Inr ''{}'', 1)"
    by (simp add: httpPost_def example_client_def example_client_env_def)
  from t [of "\<lparr>JsonRpc = ''2.0'', Method = ''meta.GetSourceFileInfo'',
              Params = [ParamString ''bafy1''], Id = 1\<rparr>"] k sent
  show ?thesis
    by simp
qed

end
